theory Spec2Isabelle
  imports Complex_Main "HOL-Library.AList" "HOL-Library.Word"
begin

section \<open>Values held in a document\<close>

text \<open>
  A document field is a Go \<open>interface{}\<close>. The code distinguishes the dynamic types
  \<open>int\<close>, \<open>int32\<close>, \<open>int64\<close>, \<open>float32\<close>, \<open>float64\<close>, \<open>time.Time\<close> and \<open>string\<close> in
  its type switches (utils.go, indexs.go); \<open>nil\<close> arises from reading a missing map key.
  The remaining integer types \<open>int8\<close>, \<open>int16\<close>, \<open>uint\<close>, \<open>uint8\<close>, \<open>uint16\<close>, \<open>uint32\<close>
  and \<open>uint64\<close> are named by no type switch and fall into the \<open>default\<close> branches, as
  \<open>bool\<close> does; they are what an integer of a document is once the document has been
  written to a file and decoded again. Nested slices and maps are not modelled.

  A finite float is represented by the rational it denotes; \<open>NaN\<close> is what
  \<open>toFloat64\<close> returns in its default branch. Infinities are not modelled.
  A \<open>time.Time\<close> is observed by the code only through \<open>Unix()\<close> and through its default
  textual form, so it is represented by these two observations.
\<close>

datatype f64 = F rat | NaN

datatype gotime = GoTime (unixSec: int) (timeText: string)

datatype val =
    VNil
  | VBool bool
  | VInt int
  | VInt32 int
  | VInt64 int
  | VInt8 int
  | VInt16 int
  | VUint int
  | VUint8 int
  | VUint16 int
  | VUint32 int
  | VUint64 int
  | VFloat32 f64
  | VFloat64 f64
  | VTime gotime
  | VStr string

text \<open>Go's \<open><\<close>, \<open>>\<close> and \<open>==\<close> on floats: every comparison with NaN is false.\<close>

fun f64_less :: "f64 \<Rightarrow> f64 \<Rightarrow> bool" where
  "f64_less (F a) (F b) = (a < b)"
| "f64_less _ _ = False"

fun f64_eq :: "f64 \<Rightarrow> f64 \<Rightarrow> bool" where
  "f64_eq (F a) (F b) = (a = b)"
| "f64_eq _ _ = False"

text \<open>
  The conversion \<open>float64(n)\<close> of a 64-bit integer rounds to the nearest value with a
  53-bit significand, ties to even; it is exact up to \<open>2^53\<close> in magnitude.
\<close>

fun excessBits :: "nat \<Rightarrow> nat" where
  "excessBits a = (if a < 2 ^ 53 then 0 else Suc (excessBits (a div 2)))"

declare excessBits.simps [simp del]

definition roundSignificand :: "nat \<Rightarrow> nat" where
  "roundSignificand a =
     (let e = excessBits a; q = a div 2 ^ e; r = a mod 2 ^ e
      in if e = 0 then a
         else if r > 2 ^ (e - 1) \<or> (r = 2 ^ (e - 1) \<and> odd q) then (q + 1) * 2 ^ e
         else q * 2 ^ e)"

definition float64_of_int :: "int \<Rightarrow> f64" where
  "float64_of_int n =
     (if n < 0 then F (- of_nat (roundSignificand (nat (- n))))
      else F (of_nat (roundSignificand (nat n))))"

text \<open>
  The conversion \<open>int64(f)\<close> truncates towards zero. For a value outside the range of
  \<open>int64\<close> (and for NaN) the Go specification leaves the result to the implementation;
  the value written here is the one amd64 produces.
\<close>

definition int64_of_float64 :: "f64 \<Rightarrow> int" where
  "int64_of_float64 f =
     (case f of
        NaN \<Rightarrow> - (2 ^ 63)
      | F r \<Rightarrow>
          (let t = (if 0 \<le> r then \<lfloor>r\<rfloor> else \<lceil>r\<rceil>)
           in if - (2 ^ 63) \<le> t \<and> t < 2 ^ 63 then t else - (2 ^ 63)))"

subsection \<open>utils.go: toFloat64, toComparableValue, compareValues\<close>

fun toFloat64 :: "val \<Rightarrow> f64" where
  "toFloat64 (VInt n) = float64_of_int n"
| "toFloat64 (VInt64 n) = float64_of_int n"
| "toFloat64 (VFloat32 f) = f"
| "toFloat64 (VFloat64 f) = f"
| "toFloat64 _ = NaN"

fun toComparableValue :: "val \<Rightarrow> val" where
  "toComparableValue (VInt n) = VInt64 n"
| "toComparableValue (VInt32 n) = VInt64 n"
| "toComparableValue (VInt64 n) = VInt64 n"
| "toComparableValue (VFloat32 f) = VFloat64 f"
| "toComparableValue (VFloat64 f) = VFloat64 f"
| "toComparableValue (VTime t) = VInt64 (unixSec t)"
| "toComparableValue v = v"

subsection \<open>Library functions the code calls\<close>

text \<open>
  The shortest-decimal formatting of floats by \<open>fmt.Sprintf("%v", _)\<close>, the Unicode
  tables behind \<open>strings.ToLower\<close>, the JSON decoder and the msgpack codec are library
  code outside the repository. They are parameters of the model; the general theorems
  below hold for all of them.

  \<open>msgpackRoundTrip\<close> is the mapping \<open>msgpack.Unmarshal\<close> returns for the bytes
  \<open>msgpack.Marshal\<close> wrote for a mapping. It need not be the mapping that was written:
  the decoder chooses the dynamic type of a value from the wire format, so that the
  \<open>int\<close> 30 comes back as the \<open>int8\<close> 30.
\<close>

record libs =
  fmtFloat32 :: "f64 \<Rightarrow> string"
  fmtFloat64 :: "f64 \<Rightarrow> string"
  toLower :: "string \<Rightarrow> string"
  jsonUnmarshal :: "string \<Rightarrow> (string \<rightharpoonup> val) option"
  msgpackRoundTrip :: "(string \<rightharpoonup> val) \<Rightarrow> (string \<rightharpoonup> val)"

text \<open>Decimal digits of a natural number, and \<open>%v\<close> of an integer.\<close>

fun digitsOf :: "nat \<Rightarrow> string" where
  "digitsOf n =
     (if n < 10 then [char_of (48 + n)]
      else digitsOf (n div 10) @ [char_of (48 + n mod 10)])"

declare digitsOf.simps [simp del]

definition fmtInt :: "int \<Rightarrow> string" where
  "fmtInt n = (if n < 0 then CHR ''-'' # digitsOf (nat (- n)) else digitsOf (nat n))"

text \<open>\<open>fmt.Sprintf("%v", v)\<close>: the default textual form of a value.\<close>

fun sprintv :: "('z libs_scheme) \<Rightarrow> val \<Rightarrow> string" where
  "sprintv L VNil = ''<nil>''"
| "sprintv L (VBool b) = (if b then ''true'' else ''false'')"
| "sprintv L (VInt n) = fmtInt n"
| "sprintv L (VInt32 n) = fmtInt n"
| "sprintv L (VInt64 n) = fmtInt n"
| "sprintv L (VInt8 n) = fmtInt n"
| "sprintv L (VInt16 n) = fmtInt n"
| "sprintv L (VUint n) = fmtInt n"
| "sprintv L (VUint8 n) = fmtInt n"
| "sprintv L (VUint16 n) = fmtInt n"
| "sprintv L (VUint32 n) = fmtInt n"
| "sprintv L (VUint64 n) = fmtInt n"
| "sprintv L (VFloat32 f) = fmtFloat32 L f"
| "sprintv L (VFloat64 f) = fmtFloat64 L f"
| "sprintv L (VTime t) = timeText t"
| "sprintv L (VStr s) = s"

text \<open>\<open>strings.Compare\<close>: three-way bytewise lexicographic comparison.\<close>

fun stringsCompare :: "string \<Rightarrow> string \<Rightarrow> int" where
  "stringsCompare [] [] = 0"
| "stringsCompare [] (y # ys) = - 1"
| "stringsCompare (x # xs) [] = 1"
| "stringsCompare (x # xs) (y # ys) =
     (if (of_char x :: nat) < of_char y then - 1
      else if (of_char y :: nat) < of_char x then 1
      else stringsCompare xs ys)"

text \<open>\<open>strings.Join(xs, sep)\<close>.\<close>

fun stringsJoin :: "string list \<Rightarrow> string \<Rightarrow> string" where
  "stringsJoin [] sep = []"
| "stringsJoin [x] sep = x"
| "stringsJoin (x # y # ys) sep = x @ sep @ stringsJoin (y # ys) sep"

text \<open>
  A run-time panic is a result of its own: a failed type assertion \<open>x.(T)\<close> without the
  comma-ok form stops the calling goroutine.
\<close>

datatype gopanic = TypeAssertionPanic

text \<open>
  utils.go, \<open>compareValues\<close>. In the \<open>int64\<close> branch a second operand that is not an
  \<open>int64\<close> is asserted to be a \<open>float64\<close> and converted to \<open>int64\<close>; in the \<open>float64\<close>
  branch a second operand that is not a \<open>float64\<close> is asserted to be an \<open>int64\<close> and
  converted to \<open>float64\<close>; in the \<open>string\<close> branch the second operand is asserted to be a
  \<open>string\<close>. The \<open>default\<close> branch formats the two original arguments.
\<close>

definition threeWayInt :: "int \<Rightarrow> int \<Rightarrow> int" where
  "threeWayInt va vb = (if va < vb then - 1 else if va > vb then 1 else 0)"

definition threeWayFloat :: "f64 \<Rightarrow> f64 \<Rightarrow> int" where
  "threeWayFloat va vb = (if f64_less va vb then - 1 else if f64_less vb va then 1 else 0)"

definition compareValues :: "('z libs_scheme) \<Rightarrow> val \<Rightarrow> val \<Rightarrow> gopanic + int" where
  "compareValues L a b =
     (let aValue = toComparableValue a; bValue = toComparableValue b
      in case aValue of
           VInt64 va \<Rightarrow>
             (case bValue of
                VInt64 vb \<Rightarrow> Inr (threeWayInt va vb)
              | VFloat64 fb \<Rightarrow> Inr (threeWayInt va (int64_of_float64 fb))
              | _ \<Rightarrow> Inl TypeAssertionPanic)
         | VFloat64 va \<Rightarrow>
             (case bValue of
                VFloat64 vb \<Rightarrow> Inr (threeWayFloat va vb)
              | VInt64 nb \<Rightarrow> Inr (threeWayFloat va (float64_of_int nb))
              | _ \<Rightarrow> Inl TypeAssertionPanic)
         | VStr va \<Rightarrow>
             (case bValue of
                VStr vb \<Rightarrow> Inr (stringsCompare va vb)
              | _ \<Rightarrow> Inl TypeAssertionPanic)
         | _ \<Rightarrow> Inr (stringsCompare (sprintv L a) (sprintv L b)))"

section \<open>trie.go\<close>

text \<open>
  \<open>for _, char := range word\<close> decodes the string as UTF-8 (the rule of the language
  specification, the same as \<open>utf8.DecodeRuneInString\<close>): an ASCII byte is its own code
  point, a well-formed sequence of two to four bytes is one code point, and a byte that
  starts no well-formed sequence yields \<open>U+FFFD\<close> and is consumed alone.
  \<open>decodeRune\<close> returns the code point and the number of bytes consumed.
\<close>

definition decodeRune :: "nat list \<Rightarrow> nat \<times> nat" where
  "decodeRune p =
     (case p of
        [] \<Rightarrow> (65533, 0)
      | p0 # _ \<Rightarrow>
          if p0 < 128 then (p0, 1)
          else if p0 < 194 \<or> 244 < p0 then (65533, 1)
          else
            let sz = (if p0 < 224 then 2 else if p0 < 240 then 3 else 4 :: nat);
                lo = (if p0 = 224 then 160 else if p0 = 240 then 144 else 128 :: nat);
                hi = (if p0 = 237 then 159 else if p0 = 244 then 143 else 191 :: nat)
            in if length p < sz then (65533, 1)
               else if p ! 1 < lo \<or> hi < p ! 1 then (65533, 1)
               else if sz \<le> 2 then ((p0 mod 32) * 64 + p ! 1 mod 64, 2)
               else if p ! 2 < 128 \<or> 191 < p ! 2 then (65533, 1)
               else if sz \<le> 3
                 then ((p0 mod 16) * 4096 + (p ! 1 mod 64) * 64 + p ! 2 mod 64, 3)
               else if p ! 3 < 128 \<or> 191 < p ! 3 then (65533, 1)
               else ((p0 mod 8) * 262144 + (p ! 1 mod 64) * 4096
                       + (p ! 2 mod 64) * 64 + p ! 3 mod 64, 4))"

function runesOf :: "nat list \<Rightarrow> nat list" where
  "runesOf p = (if p = [] then [] else fst (decodeRune p) # runesOf (drop (snd (decodeRune p)) p))"
  by pat_completeness auto
termination
proof (relation "measure length")
  show "wf (measure length)" by simp
next
  fix p :: "nat list"
  assume "p \<noteq> []"
  then have "0 < snd (decodeRune p)" "0 < length p"
    by (cases p; simp add: decodeRune_def Let_def)+
  then show "(drop (snd (decodeRune p)) p, p) \<in> measure length"
    by simp
qed

declare runesOf.simps [simp del]

text \<open>The bytes of a Go string, and the code points a \<open>range\<close> loop visits.\<close>

definition bytesOf :: "string \<Rightarrow> nat list" where
  "bytesOf w = map of_char w"

definition rangeRunes :: "string \<Rightarrow> nat list" where
  "rangeRunes w = runesOf (bytesOf w)"

text \<open>
  A node owns a map from code point to child and a set of document ids (a \<open>sync.Map\<close>
  whose values are empty structs). The child map is an association list with distinct
  keys; the id set is a list without repetition.
\<close>

datatype TrieNode = TrieNode (children: "(nat \<times> TrieNode) list") (docs: "string list")

datatype Trie = Trie (root: TrieNode)

definition NewTrie :: Trie where
  "NewTrie = Trie (TrieNode [] [])"

text \<open>
  \<open>Trie.Insert\<close>: for each code point create the child when it is missing, move to it
  and store the id in its set.
\<close>

fun insertRunes :: "nat list \<Rightarrow> string \<Rightarrow> TrieNode \<Rightarrow> TrieNode" where
  "insertRunes [] docID node = node"
| "insertRunes (c # cs) docID node =
     (let child = (case map_of (children node) c of
                     None \<Rightarrow> TrieNode [] []
                   | Some n \<Rightarrow> n);
          stored = TrieNode (children child) (List.insert docID (docs child))
      in TrieNode (AList.update c (insertRunes cs docID stored) (children node)) (docs node))"

definition TrieInsert :: "Trie \<Rightarrow> string \<Rightarrow> string \<Rightarrow> Trie" where
  "TrieInsert t word docID = Trie (insertRunes (rangeRunes word) docID (root t))"

text \<open>
  \<open>Trie.Remove\<close>. The first loop walks the code points of the word and records the
  path; a missing child returns at once and nothing has been changed. The id is then
  deleted from the set of the node reached. The second loop runs from the deepest parent
  upwards: while the current node has no child and no id it is deleted from its parent
  under the key \<open>rune(word[i])\<close>, the \<open>i\<close>-th \<^emph>\<open>byte\<close> of the word, and the parent becomes the
  current node; the first node that is not empty ends the loop.

  \<open>removeWalk\<close> takes the list of pairs (code point \<open>i\<close>, byte \<open>i\<close>). Its second result says
  whether the second loop is still running when it reaches this level.
  The word has at least as many bytes as code points (\<open>length_runesOf\<close> below), so
  \<open>word[i]\<close> is always in range and \<open>zip\<close> drops no code point.
\<close>

fun removeWalk :: "(nat \<times> nat) list \<Rightarrow> string \<Rightarrow> TrieNode \<Rightarrow> (TrieNode \<times> bool) option" where
  "removeWalk [] docID node = Some (TrieNode (children node) (removeAll docID (docs node)), True)"
| "removeWalk ((c, b) # ps) docID node =
     (case map_of (children node) c of
        None \<Rightarrow> None
      | Some next \<Rightarrow>
          (case removeWalk ps docID next of
             None \<Rightarrow> None
           | Some (next', pruning) \<Rightarrow>
               let node' = TrieNode (AList.update c next' (children node)) (docs node)
               in if pruning \<and> children next' = [] \<and> docs next' = []
                  then Some (TrieNode (AList.delete b (children node')) (docs node'), True)
                  else Some (node', False)))"

definition TrieRemove :: "Trie \<Rightarrow> string \<Rightarrow> string \<Rightarrow> Trie" where
  "TrieRemove t word docID =
     (case removeWalk (zip (rangeRunes word) (bytesOf word)) docID (root t) of
        None \<Rightarrow> t
      | Some (r, _) \<Rightarrow> Trie r)"

text \<open>The node reached from a node along a list of code points, and its id set.\<close>

fun nodeAt :: "nat list \<Rightarrow> TrieNode \<Rightarrow> TrieNode option" where
  "nodeAt [] node = Some node"
| "nodeAt (c # cs) node =
     (case map_of (children node) c of None \<Rightarrow> None | Some n \<Rightarrow> nodeAt cs n)"

definition terminalDocs :: "Trie \<Rightarrow> string \<Rightarrow> string list" where
  "terminalDocs t word =
     (case nodeAt (rangeRunes word) (root t) of None \<Rightarrow> [] | Some n \<Rightarrow> docs n)"

section \<open>indexs.go\<close>

text \<open>
  A document is a \<open>map[string]interface{}\<close>. Reading a missing key with the one-result
  form \<open>m[k]\<close> yields \<open>nil\<close>.
\<close>

type_synonym document = "string \<rightharpoonup> val"

definition fieldOrNil :: "document \<Rightarrow> string \<Rightarrow> val" where
  "fieldOrNil d k = (case d k of None \<Rightarrow> VNil | Some v \<Rightarrow> v)"

text \<open>
  Equality of two interface values (\<open>==\<close>, and the key comparison of a \<open>sync.Map\<close>):
  the dynamic types agree and the values are equal; a float NaN equals nothing.
\<close>

fun goEq :: "val \<Rightarrow> val \<Rightarrow> bool" where
  "goEq (VFloat32 a) (VFloat32 b) = f64_eq a b"
| "goEq (VFloat64 a) (VFloat64 b) = f64_eq a b"
| "goEq a b = (a = b)"

text \<open>
  The \<open>values\<close> of an index: a \<open>sync.Map\<close> from a key to a set of document ids (itself a
  \<open>sync.Map\<close> with empty values). An association list in insertion order; the id sets
  are lists without repetition.
\<close>

type_synonym buckets = "(val \<times> string list) list"

fun bucketLoad :: "buckets \<Rightarrow> val \<Rightarrow> string list option" where
  "bucketLoad [] k = None"
| "bucketLoad ((k', ids) # m) k = (if goEq k' k then Some ids else bucketLoad m k)"

text \<open>\<open>LoadOrStore(k, &sync.Map{})\<close> followed by \<open>Store(id, struct{}{})\<close> on the result.\<close>

fun bucketAdd :: "buckets \<Rightarrow> val \<Rightarrow> string \<Rightarrow> buckets" where
  "bucketAdd [] k docID = [(k, [docID])]"
| "bucketAdd ((k', ids) # m) k docID =
     (if goEq k' k then (k', List.insert docID ids) # m else (k', ids) # bucketAdd m k docID)"

text \<open>\<open>if m, ok := Load(k); ok { m.Delete(id) }\<close>.\<close>

fun bucketRemove :: "buckets \<Rightarrow> val \<Rightarrow> string \<Rightarrow> buckets" where
  "bucketRemove [] k docID = []"
| "bucketRemove ((k', ids) # m) k docID =
     (if goEq k' k then (k', removeAll docID ids) # m else (k', ids) # bucketRemove m k docID)"

record Index =
  field :: string
  ivalues :: buckets
  trie :: Trie

record CompositeIndex =
  cfields :: "string list"
  cvalues :: buckets

text \<open>
  The field \<open>values\<close> of the two structs is \<open>ivalues\<close> and \<open>cvalues\<close> here, and the
  field \<open>fields\<close> is \<open>cfields\<close> (both names are reserved).
\<close>

datatype IndexEntry = Single Index | Composite CompositeIndex

text \<open>
  \<open>indexDocument\<close> (lines 155-194). The key of the bucket is the field value converted
  by the type switch: \<open>int\<close>, \<open>int64\<close>, \<open>float32\<close> and \<open>float64\<close> become a \<open>float64\<close>, a time
  becomes its Unix seconds, every other value is its own key.
\<close>

fun indexValueOf :: "val \<Rightarrow> val" where
  "indexValueOf (VInt n) = VFloat64 (toFloat64 (VInt n))"
| "indexValueOf (VInt64 n) = VFloat64 (toFloat64 (VInt64 n))"
| "indexValueOf (VFloat32 f) = VFloat64 (toFloat64 (VFloat32 f))"
| "indexValueOf (VFloat64 f) = VFloat64 (toFloat64 (VFloat64 f))"
| "indexValueOf (VTime t) = VInt64 (unixSec t)"
| "indexValueOf v = v"

definition indexDocument :: "('z libs_scheme) \<Rightarrow> document \<Rightarrow> string \<Rightarrow> Index \<Rightarrow> Index" where
  "indexDocument L doc docID index =
     (case doc (field index) of
        Some fieldValue \<Rightarrow>
          (let indexValue = indexValueOf fieldValue;
               strValue = sprintv L indexValue
           in index\<lparr>ivalues := bucketAdd (ivalues index) indexValue docID,
                    trie := TrieInsert (trie index) (toLower L strValue) docID\<rparr>)
      | None \<Rightarrow> index)"

text \<open>
  The composite key of \<open>indexDocumentComposite\<close> (lines 201-210) and of
  \<open>removeFromCompositeIndex\<close> (lines 312-321): a missing field contributes the empty
  string.
\<close>

definition compositeKeyOf :: "('z libs_scheme) \<Rightarrow> string list \<Rightarrow> document \<Rightarrow> string" where
  "compositeKeyOf L fs doc =
     stringsJoin (map (\<lambda>f. case doc f of Some fieldValue \<Rightarrow> sprintv L fieldValue
                                          | None \<Rightarrow> []) fs) ''-''"

text \<open>
  The composite keys of \<open>updateCompositeIndex\<close> (lines 268-275): each field is read
  with \<open>doc.data[field]\<close> and formatted, so a missing field is formatted as \<open>nil\<close>.
\<close>

definition updateKeyOf :: "('z libs_scheme) \<Rightarrow> string list \<Rightarrow> document \<Rightarrow> string" where
  "updateKeyOf L fs doc = stringsJoin (map (\<lambda>f. sprintv L (fieldOrNil doc f)) fs) ''-''"

definition indexDocumentComposite ::
    "('z libs_scheme) \<Rightarrow> document \<Rightarrow> string \<Rightarrow> CompositeIndex \<Rightarrow> CompositeIndex" where
  "indexDocumentComposite L doc docID index =
     (let compositeKey = compositeKeyOf L (cfields index) doc
      in index\<lparr>cvalues := bucketAdd (cvalues index) (VStr compositeKey) docID\<rparr>)"

text \<open>\<open>updateIndex\<close> (lines 236-264): the buckets are addressed by the unconverted values.\<close>

definition updateIndex ::
    "('z libs_scheme) \<Rightarrow> string \<Rightarrow> document \<Rightarrow> document \<Rightarrow> Index \<Rightarrow> Index" where
  "updateIndex L docID oldDoc newDoc index =
     (let oldValue = fieldOrNil oldDoc (field index);
          newValue = fieldOrNil newDoc (field index)
      in if \<not> goEq oldValue newValue
         then
           (let vs1 = (case bucketLoad (ivalues index) oldValue of
                         Some _ \<Rightarrow> bucketRemove (ivalues index) oldValue docID
                       | None \<Rightarrow> ivalues index);
                t1 = TrieRemove (trie index) (toLower L (sprintv L oldValue)) docID;
                vs2 = bucketAdd vs1 newValue docID;
                t2 = TrieInsert t1 (toLower L (sprintv L newValue)) docID
            in index\<lparr>ivalues := vs2, trie := t2\<rparr>)
         else index)"

text \<open>\<open>updateCompositeIndex\<close> (lines 267-291).\<close>

definition updateCompositeIndex ::
    "('z libs_scheme) \<Rightarrow> string \<Rightarrow> document \<Rightarrow> document \<Rightarrow> CompositeIndex \<Rightarrow> CompositeIndex" where
  "updateCompositeIndex L docID oldDoc newDoc index =
     (let oldCompositeKey = updateKeyOf L (cfields index) oldDoc;
          newCompositeKey = updateKeyOf L (cfields index) newDoc
      in if oldCompositeKey \<noteq> newCompositeKey
         then
           (let vs1 = (case bucketLoad (cvalues index) (VStr oldCompositeKey) of
                         Some _ \<Rightarrow> bucketRemove (cvalues index) (VStr oldCompositeKey) docID
                       | None \<Rightarrow> cvalues index)
            in index\<lparr>cvalues := bucketAdd vs1 (VStr newCompositeKey) docID\<rparr>)
         else index)"

text \<open>\<open>removeFromIndex\<close> (lines 294-308) and \<open>removeFromCompositeIndex\<close> (lines 311-330).\<close>

definition removeFromIndex ::
    "('z libs_scheme) \<Rightarrow> string \<Rightarrow> document \<Rightarrow> Index \<Rightarrow> Index" where
  "removeFromIndex L docID doc index =
     (case doc (field index) of
        Some fieldValue \<Rightarrow>
          index\<lparr>ivalues := (case bucketLoad (ivalues index) fieldValue of
                              Some _ \<Rightarrow> bucketRemove (ivalues index) fieldValue docID
                            | None \<Rightarrow> ivalues index),
                 trie := TrieRemove (trie index) (toLower L (sprintv L fieldValue)) docID\<rparr>
      | None \<Rightarrow> index)"

definition removeFromCompositeIndex ::
    "('z libs_scheme) \<Rightarrow> string \<Rightarrow> document \<Rightarrow> CompositeIndex \<Rightarrow> CompositeIndex" where
  "removeFromCompositeIndex L docID doc index =
     (let compositeKey = compositeKeyOf L (cfields index) doc
      in index\<lparr>cvalues := (case bucketLoad (cvalues index) (VStr compositeKey) of
                               Some _ \<Rightarrow> bucketRemove (cvalues index) (VStr compositeKey) docID
                             | None \<Rightarrow> cvalues index)\<rparr>)"

section \<open>The database: document.go, write.go and the constructor\<close>

text \<open>
  The calls of the interface run one at a time: the locks, the worker pool (of at least
  one token) and the retry of the compare-and-swap in \<open>Update\<close> have no effect in such a
  run and are left out.

  What stays concurrent is the goroutine that a successful \<open>Insert\<close> or \<open>Update\<close> starts
  to append the document to the data file. It has not run when the call returns: the
  append is kept in \<open>pending\<close> and runs at some later moment, which a schedule chooses.
  \<open>Update\<close> registers its goroutine in the wait group \<open>writeWg\<close> before starting it
  (document.go, line 217). \<open>Insert\<close> does not: its \<open>writeWg.Add(1)\<close> and the deferred
  \<open>writeWg.Done()\<close> (lines 100-106) bracket the body of \<open>Insert\<close> itself and are over when
  the goroutine is started (lines 134-142). \<open>Close\<close> waits for the wait group only.
  The flag of a pending append tells whether it is registered in the wait group.
  An append touches the data file and nothing else, and no call of the interface other
  than \<open>Close\<close> touches the data file once the constructor has returned, so an append that
  runs during such a call has the effect of one that runs before or after the call.

  A file handle is the sequence of records appended to the file so far, together with
  what makes a write fail: the handle has been closed, or the device accepts no more
  data. One record is one frame of the byte stream (section \<open>Record framing\<close> below:
  reading back the frames written for a list of records yields what the decoder returns
  for each of these records).
\<close>

record 'r gofile =
  contents :: "'r list"
  closed :: bool
  full :: bool

definition fileWrite :: "'r gofile \<Rightarrow> 'r \<Rightarrow> 'r gofile option" where
  "fileWrite f r = (if closed f \<or> full f then None else Some (f\<lparr>contents := contents f @ [r]\<rparr>))"

text \<open>The record of the data file, \<open>{ID, Data}\<close>, and of the log, \<open>{Operation, ID, Document}\<close>.\<close>

datatype docEntry = DocEntry (entryID: string) (entryData: document)

datatype walEntry = WalEntry (Operation: string) (walID: string) (Document: document)

definition OperationInsert :: string where "OperationInsert = ''INSERT''"
definition OperationUpdate :: string where "OperationUpdate = ''UPDATE''"
definition OperationDelete :: string where "OperationDelete = ''DELETE''"

record Database =
  data :: "(string \<times> document) list"
  indexes :: "(string \<times> IndexEntry) list"
  primaryKey :: string
  dataFile :: "docEntry gofile"
  walFile :: "walEntry gofile"
  docCount :: int
  pending :: "(bool \<times> docEntry) list"

datatype dberror =
    JSONParseError
  | UnsupportedInputType
  | PrimaryKeyNotFound string
  | AlreadyExists string
  | WALWriteError
  | DataWriteError
  | NotFound string
  | CloseError

text \<open>
  \<open>writeWAL\<close> (write.go, lines 33-73) and \<open>writeToDataFile\<close> (lines 80-122). A write
  that fails appends no record. (When the four length bytes are written and the body is
  not, the file ends in an incomplete frame; no property below depends on the content of
  a file after a failed write.) \<open>writeToDataFile\<close> holds the lock \<open>db.mu\<close> from the seek
  to the end of the file until the body is written, so two appends do not interleave.
\<close>

definition writeWAL :: "Database \<Rightarrow> string \<Rightarrow> string \<Rightarrow> document \<Rightarrow> dberror + Database" where
  "writeWAL db operation docID doc =
     (case fileWrite (walFile db) (WalEntry operation docID doc) of
        None \<Rightarrow> Inl WALWriteError
      | Some f \<Rightarrow> Inr (db\<lparr>walFile := f\<rparr>))"

definition writeToDataFile :: "Database \<Rightarrow> string \<Rightarrow> document \<Rightarrow> dberror + Database" where
  "writeToDataFile db docID doc =
     (case fileWrite (dataFile db) (DocEntry docID doc) of
        None \<Rightarrow> Inl DataWriteError
      | Some f \<Rightarrow> Inr (db\<lparr>dataFile := f\<rparr>))"

text \<open>
  The body of the goroutine that appends to the data file: a failure is logged and
  reaches no caller.
\<close>

definition asyncWriteToDataFile :: "Database \<Rightarrow> string \<Rightarrow> document \<Rightarrow> Database" where
  "asyncWriteToDataFile db docID doc =
     (case writeToDataFile db docID doc of Inl _ \<Rightarrow> db | Inr db' \<Rightarrow> db')"

text \<open>
  \<open>go func() { ... }()\<close>: the append is pending from now on. \<open>tracked\<close> tells whether
  \<open>writeWg.Add(1)\<close> was called for it.
\<close>

definition startAppend :: "bool \<Rightarrow> Database \<Rightarrow> string \<Rightarrow> document \<Rightarrow> Database" where
  "startAppend tracked db docID doc = db\<lparr>pending := pending db @ [(tracked, DocEntry docID doc)]\<rparr>"

text \<open>
  The scheduler lets the pending append at position \<open>i\<close> run (a position beyond the end
  of the list lets none run). A schedule is the list of the positions chosen one after
  the other; between two calls of the interface, and while \<open>Close\<close> waits, any schedule
  may run.
\<close>

definition runPending :: "nat \<Rightarrow> Database \<Rightarrow> Database" where
  "runPending i db =
     (if i < length (pending db)
        then let e = snd (pending db ! i);
                 db1 = db\<lparr>pending := take i (pending db) @ drop (Suc i) (pending db)\<rparr>
             in asyncWriteToDataFile db1 (entryID e) (entryData e)
      else db)"

definition runSchedule :: "nat list \<Rightarrow> Database \<Rightarrow> Database" where
  "runSchedule sched db = foldl (\<lambda>d i. runPending i d) db sched"

text \<open>\<open>Get\<close> (document.go, lines 320-343) and \<open>Count\<close>.\<close>

definition Get :: "Database \<Rightarrow> string \<Rightarrow> document option" where
  "Get db docID = map_of (data db) docID"

definition Count :: "Database \<Rightarrow> int" where
  "Count db = docCount db"

text \<open>
  \<open>db.indexes.Range\<close> with the type switch on the entry, as it stands in \<open>Insert\<close>,
  \<open>Update\<close>, \<open>Delete\<close> and \<open>loadData\<close>.
\<close>

definition indexAll :: "('z libs_scheme) \<Rightarrow> document \<Rightarrow> string \<Rightarrow> Database \<Rightarrow> Database" where
  "indexAll L doc docID db =
     db\<lparr>indexes := map (\<lambda>(k, e). (k, case e of
                                      Single idx \<Rightarrow> Single (indexDocument L doc docID idx)
                                    | Composite idx \<Rightarrow> Composite (indexDocumentComposite L doc docID idx)))
                        (indexes db)\<rparr>"

definition updateAll ::
    "('z libs_scheme) \<Rightarrow> string \<Rightarrow> document \<Rightarrow> document \<Rightarrow> Database \<Rightarrow> Database" where
  "updateAll L docID oldDoc newDoc db =
     db\<lparr>indexes := map (\<lambda>(k, e). (k, case e of
                                      Single idx \<Rightarrow> Single (updateIndex L docID oldDoc newDoc idx)
                                    | Composite idx \<Rightarrow> Composite (updateCompositeIndex L docID oldDoc newDoc idx)))
                        (indexes db)\<rparr>"

definition removeAllIndexes :: "('z libs_scheme) \<Rightarrow> string \<Rightarrow> document \<Rightarrow> Database \<Rightarrow> Database" where
  "removeAllIndexes L docID doc db =
     db\<lparr>indexes := map (\<lambda>(k, e). (k, case e of
                                      Single idx \<Rightarrow> Single (removeFromIndex L docID doc idx)
                                    | Composite idx \<Rightarrow> Composite (removeFromCompositeIndex L docID doc idx)))
                        (indexes db)\<rparr>"

text \<open>
  \<open>Insert\<close> (document.go, lines 39-147). The argument is an \<open>interface{}\<close>: a map, a
  string holding JSON, or a value of any other type. The goroutine started at the end
  (lines 134-142) is not registered in the wait group.
\<close>

datatype docData = DocMap document | DocString string | DocOther

definition parseInput :: "('z libs_scheme) \<Rightarrow> docData \<Rightarrow> dberror + document" where
  "parseInput L docData =
     (case docData of
        DocMap v \<Rightarrow> Inr v
      | DocString v \<Rightarrow>
          (case jsonUnmarshal L v of None \<Rightarrow> Inl JSONParseError | Some doc \<Rightarrow> Inr doc)
      | DocOther \<Rightarrow> Inl UnsupportedInputType)"

definition Insert :: "('z libs_scheme) \<Rightarrow> Database \<Rightarrow> docData \<Rightarrow> dberror option \<times> Database" where
  "Insert L db docData =
     (case parseInput L docData of
        Inl e \<Rightarrow> (Some e, db)
      | Inr doc \<Rightarrow>
          (case doc (primaryKey db) of
             None \<Rightarrow> (Some (PrimaryKeyNotFound (primaryKey db)), db)
           | Some idv \<Rightarrow>
               (let idStr = sprintv L idv
                in case Get db idStr of
                     Some _ \<Rightarrow> (Some (AlreadyExists idStr), db)
                   | None \<Rightarrow>
                       (case writeWAL db OperationInsert idStr doc of
                          Inl e \<Rightarrow> (Some e, db)
                        | Inr db1 \<Rightarrow>
                            (let db2 = db1\<lparr>data := AList.update idStr doc (data db1)\<rparr>;
                                 db3 = indexAll L doc idStr db2;
                                 db4 = db3\<lparr>docCount := docCount db3 + 1\<rparr>
                             in (None, startAppend False db4 idStr doc))))))"

text \<open>
  \<open>Update\<close> (lines 169-243). With one call running at a time the compare-and-swap
  succeeds at the first attempt. The entry of the store is replaced before the log is
  written. The goroutine started at the end (lines 217-227) is registered in the wait
  group.
\<close>

definition Update ::
    "('z libs_scheme) \<Rightarrow> Database \<Rightarrow> string \<Rightarrow> document \<Rightarrow> dberror option \<times> Database" where
  "Update L db docID updates =
     (case map_of (data db) docID of
        Some oldDoc \<Rightarrow>
          (let newData = oldDoc ++ updates;
               db1 = db\<lparr>data := AList.update docID newData (data db)\<rparr>
           in case writeWAL db1 OperationUpdate docID newData of
                Inl e \<Rightarrow> (Some e, db1)
              | Inr db2 \<Rightarrow>
                  (let db3 = updateAll L docID oldDoc newData db2
                   in (None, startAppend True db3 docID newData)))
      | None \<Rightarrow> (Some (NotFound docID), db))"

text \<open>
  \<open>Delete\<close> (lines 262-301). \<open>LoadAndDelete\<close> takes the entry out of the store first;
  the data file is not written and no goroutine is started.
\<close>

definition Delete :: "('z libs_scheme) \<Rightarrow> Database \<Rightarrow> string \<Rightarrow> dberror option \<times> Database" where
  "Delete L db docID =
     (case map_of (data db) docID of
        Some doc \<Rightarrow>
          (let db1 = db\<lparr>data := AList.delete docID (data db)\<rparr>
           in case writeWAL db1 OperationDelete docID Map.empty of
                Inl e \<Rightarrow> (Some e, db1)
              | Inr db2 \<Rightarrow>
                  (let db3 = removeAllIndexes L docID doc db2
                   in (None, db3\<lparr>docCount := docCount db3 - 1\<rparr>)))
      | None \<Rightarrow> (None, db))"

text \<open>
  What \<open>msgpack.Unmarshal\<close> returns for a record of the data file and for a record of
  the log: the strings as they were written, the mapping as the codec returns it.
\<close>

definition decodeDocEntry :: "('z libs_scheme) \<Rightarrow> docEntry \<Rightarrow> docEntry" where
  "decodeDocEntry L e = DocEntry (entryID e) (msgpackRoundTrip L (entryData e))"

definition decodeWalEntry :: "('z libs_scheme) \<Rightarrow> walEntry \<Rightarrow> walEntry" where
  "decodeWalEntry L e = WalEntry (Operation e) (walID e) (msgpackRoundTrip L (Document e))"

text \<open>
  \<open>loadData\<close> (write.go, lines 126-189) on the records of the data file: each decoded
  record is stored under its id, passed to every index, and counted.
\<close>

definition loadEntry :: "('z libs_scheme) \<Rightarrow> Database \<Rightarrow> docEntry \<Rightarrow> Database" where
  "loadEntry L db e =
     (let db1 = db\<lparr>data := AList.update (entryID e) (entryData e) (data db)\<rparr>;
          db2 = indexAll L (entryData e) (entryID e) db1
      in db2\<lparr>docCount := docCount db2 + 1\<rparr>)"

definition loadData :: "('z libs_scheme) \<Rightarrow> Database \<Rightarrow> Database" where
  "loadData L db = foldl (loadEntry L) db (map (decodeDocEntry L) (contents (dataFile db)))"

text \<open>\<open>recoverFromWAL\<close> (lines 193-250) on the records of the log.\<close>

definition replayEntry :: "Database \<Rightarrow> walEntry \<Rightarrow> Database" where
  "replayEntry db e =
     (if Operation e = OperationInsert \<or> Operation e = OperationUpdate
        then db\<lparr>data := AList.update (walID e) (Document e) (data db)\<rparr>
      else if Operation e = OperationDelete
        then db\<lparr>data := AList.delete (walID e) (data db)\<rparr>
      else db)"

definition recoverFromWAL :: "('z libs_scheme) \<Rightarrow> Database \<Rightarrow> Database" where
  "recoverFromWAL L db = foldl replayEntry db (map (decodeWalEntry L) (contents (walFile db)))"

text \<open>
  \<open>NewDatabase\<close>. The directory holds the two files, each a sequence of whole records.
  \<open>data.db\<close> is opened with \<open>O_RDWR|O_CREATE\<close> and keeps its records; \<open>wal.log\<close> is
  opened with \<open>O_RDWR|O_CREATE|O_TRUNC\<close> and is empty from then on. No append is pending
  in the new database.
\<close>

record directory =
  dataDb :: "docEntry list"
  walLog :: "walEntry list"

definition NewDatabase :: "('z libs_scheme) \<Rightarrow> string \<Rightarrow> directory \<Rightarrow> Database" where
  "NewDatabase L pk dir =
     (let db = \<lparr>data = [], indexes = [], primaryKey = pk,
                 dataFile = \<lparr>contents = dataDb dir, closed = False, full = False\<rparr>,
                 walFile = \<lparr>contents = [], closed = False, full = False\<rparr>,
                 docCount = 0, pending = []\<rparr>
      in recoverFromWAL L (loadData L db))"

text \<open>
  \<open>writeWg.Wait()\<close> returns when every registered append has run: those still pending
  run now, in the order in which they were started. The appends that are not registered
  stay pending.
\<close>

definition awaitTracked :: "Database \<Rightarrow> Database" where
  "awaitTracked db =
     foldl (\<lambda>d p. asyncWriteToDataFile d (entryID (snd p)) (entryData (snd p)))
       (db\<lparr>pending := filter (\<lambda>p. \<not> fst p) (pending db)\<rparr>)
       (filter fst (pending db))"

text \<open>
  \<open>Close\<close> (part_001, lines 91-108): \<open>writeWg.Wait()\<close>, then the two handles are closed;
  closing a handle a second time is an error. While \<open>Close\<close> waits the schedule \<open>sched\<close>
  runs, so that every order in which pending appends, registered or not, run before the
  data file is closed is the run of some schedule. An append that is still pending
  afterwards finds the handle closed and writes nothing. (\<open>Close\<close> does not take the
  lock \<open>db.mu\<close>. An append that is not registered and has written its four length bytes
  when the handle is closed leaves a file that ends in an incomplete frame; such a file
  is not a sequence of records. A schedule lets an append run as a whole, before the
  handle is closed or after it. The two theorems on reopening a directory in section
  \<open>The store and its files\<close> are about runs in which no append is pending when \<open>Close\<close>
  is called.)
\<close>

definition Close :: "nat list \<Rightarrow> Database \<Rightarrow> dberror option \<times> Database" where
  "Close sched db0 =
     (let db = awaitTracked (runSchedule sched db0)
      in if closed (dataFile db) then (Some CloseError, db)
         else let db1 = db\<lparr>dataFile := (dataFile db)\<lparr>closed := True\<rparr>\<rparr>
              in if closed (walFile db1) then (Some CloseError, db1)
                 else (None, db1\<lparr>walFile := (walFile db1)\<lparr>closed := True\<rparr>\<rparr>))"

text \<open>What the directory holds once the database has been used.\<close>

definition directoryOf :: "Database \<Rightarrow> directory" where
  "directoryOf db = \<lparr>dataDb = contents (dataFile db), walLog = contents (walFile db)\<rparr>"

section \<open>Index creation and queries: indexs.go, complexquery.go\<close>

text \<open>
  \<open>CreateIndex\<close> (indexs.go, lines 44-79) and \<open>CreateCompositeIndex\<close> (lines 99-136).
  Both look the key up in the one registry \<open>db.indexes\<close>; only when it is absent the new
  index is registered and every stored document is indexed.
\<close>

definition CreateIndex :: "('z libs_scheme) \<Rightarrow> Database \<Rightarrow> string \<Rightarrow> Database" where
  "CreateIndex L db fld =
     (case map_of (indexes db) fld of
        None \<Rightarrow>
          (let index = \<lparr>field = fld, ivalues = [], trie = NewTrie\<rparr>;
               index' = foldl (\<lambda>idx (key, doc). indexDocument L doc key idx) index (data db)
           in db\<lparr>indexes := AList.update fld (Single index') (indexes db)\<rparr>)
      | Some _ \<Rightarrow> db)"

definition CreateCompositeIndex :: "('z libs_scheme) \<Rightarrow> Database \<Rightarrow> string list \<Rightarrow> Database" where
  "CreateCompositeIndex L db flds =
     (let indexKey = stringsJoin flds ''-''
      in case map_of (indexes db) indexKey of
           None \<Rightarrow>
             (let index = \<lparr>cfields = flds, cvalues = []\<rparr>;
                  index' = foldl (\<lambda>idx (key, doc). indexDocumentComposite L doc key idx)
                             index (data db)
              in db\<lparr>indexes := AList.update indexKey (Composite index') (indexes db)\<rparr>)
         | Some _ \<Rightarrow> db)"

text \<open>Resolving the ids of a bucket with \<open>Get\<close>: an id that is not stored is skipped.\<close>

definition resolveIds :: "Database \<Rightarrow> string list \<Rightarrow> document list" where
  "resolveIds db ids = List.map_filter (Get db) ids"


text \<open>
  \<open>RangeQuery\<close> (complexquery.go, lines 132-216). The test
  \<open>compareValues(v, minValue) >= 0 && compareValues(v, maxValue) <= 0\<close> evaluates its
  second half only when the first holds; a panic of \<open>compareValues\<close> ends the query.
\<close>

definition inRange :: "('z libs_scheme) \<Rightarrow> val \<Rightarrow> val \<Rightarrow> val \<Rightarrow> gopanic + bool" where
  "inRange L v minValue maxValue =
     (case compareValues L v minValue of
        Inl p \<Rightarrow> Inl p
      | Inr c \<Rightarrow>
          if c \<ge> 0
          then (case compareValues L v maxValue of Inl p \<Rightarrow> Inl p | Inr c' \<Rightarrow> Inr (c' \<le> 0))
          else Inr False)"

fun rangeIndexLoop ::
    "('z libs_scheme) \<Rightarrow> Database \<Rightarrow> val \<Rightarrow> val \<Rightarrow> buckets \<Rightarrow> document list \<Rightarrow> gopanic + document list" where
  "rangeIndexLoop L db minValue maxValue [] results = Inr results"
| "rangeIndexLoop L db minValue maxValue ((key, ids) # rest) results =
     (case inRange L (toComparableValue key) minValue maxValue of
        Inl p \<Rightarrow> Inl p
      | Inr hit \<Rightarrow>
          rangeIndexLoop L db minValue maxValue rest
            (if hit then results @ resolveIds db ids else results))"

fun rangeScanLoop ::
    "('z libs_scheme) \<Rightarrow> string \<Rightarrow> val \<Rightarrow> val \<Rightarrow> (string \<times> document) list \<Rightarrow> document list \<Rightarrow> gopanic + document list" where
  "rangeScanLoop L fld minValue maxValue [] results = Inr results"
| "rangeScanLoop L fld minValue maxValue ((key, doc) # rest) results =
     (case doc fld of
        Some fieldValue \<Rightarrow>
          (case inRange L (toComparableValue fieldValue) minValue maxValue of
             Inl p \<Rightarrow> Inl p
           | Inr hit \<Rightarrow>
               rangeScanLoop L fld minValue maxValue rest
                 (if hit then results @ [doc] else results))
      | None \<Rightarrow> rangeScanLoop L fld minValue maxValue rest results)"

definition RangeQuery ::
    "('z libs_scheme) \<Rightarrow> Database \<Rightarrow> string \<Rightarrow> val \<Rightarrow> val \<Rightarrow> gopanic + document list" where
  "RangeQuery L db fld minv maxv =
     (let minValue = toComparableValue minv;
          maxValue = toComparableValue maxv
      in case map_of (indexes db) fld of
           Some (Single idx) \<Rightarrow> rangeIndexLoop L db minValue maxValue (ivalues idx) []
         | Some (Composite _) \<Rightarrow> Inr []
         | None \<Rightarrow> rangeScanLoop L fld minValue maxValue (data db) [])"

section \<open>Record framing: the read loop of loadData and recoverFromWAL\<close>

text \<open>
  Both files are a sequence of frames: the length of the body as a little-endian
  \<open>uint32\<close>, then the body (write.go, lines 59-65 and 108-114). Both loaders run the same
  loop (lines 137-185 and 205-246): \<open>binary.Read\<close> of the four length bytes, \<open>io.ReadFull\<close>
  of the body, \<open>msgpack.Unmarshal\<close>, then the effect of the record on the database.

  \<open>binary.Read\<close> of a \<open>uint32\<close> is \<open>io.ReadFull\<close> of four bytes. \<open>io.ReadFull\<close> returns
  \<open>io.EOF\<close> only when no byte could be read, and \<open>io.ErrUnexpectedEOF\<close> when the input
  ends after some but not all of the bytes; reading zero bytes always succeeds.
  The remaining content of the file is a list of bytes.
\<close>

type_synonym byte = "8 word"

datatype ioerr = EOF | ErrUnexpectedEOF

definition readFull :: "nat \<Rightarrow> byte list \<Rightarrow> ioerr + (byte list \<times> byte list)" where
  "readFull n bs =
     (if n \<le> length bs then Inr (take n bs, drop n bs)
      else if bs = [] then Inl EOF
      else Inl ErrUnexpectedEOF)"

text \<open>\<open>binary.LittleEndian\<close>: the \<open>uint32\<close> held by four bytes, and the four bytes of a \<open>uint32\<close>.\<close>

definition le32 :: "byte list \<Rightarrow> nat" where
  "le32 hdr = unat (hdr ! 0) + 256 * unat (hdr ! 1) + 65536 * unat (hdr ! 2)
                + 16777216 * unat (hdr ! 3)"

definition putLe32 :: "nat \<Rightarrow> byte list" where
  "putLe32 n = [of_nat n, of_nat (n div 256), of_nat (n div 65536), of_nat (n div 16777216)]"

text \<open>
  The frame written for a body: \<open>uint32(len(data))\<close> keeps the low 32 bits of the length.
\<close>

definition frame :: "byte list \<Rightarrow> byte list" where
  "frame body = putLe32 (length body mod 2 ^ 32) @ body"

text \<open>The bytes of a file to which the frames of a list of records were appended.\<close>

definition framesOf :: "('r \<Rightarrow> byte list) \<Rightarrow> 'r list \<Rightarrow> byte list" where
  "framesOf marshal rs = concat (map (\<lambda>r. frame (marshal r)) rs)"

datatype loadError = ReadSizeError ioerr | ReadDataError ioerr | UnmarshalError

text \<open>
  The loop. \<open>unmarshal\<close> is the decoder of the record (\<open>None\<close> when it fails) and \<open>step\<close>
  the effect of one record; the state reached at the clean end of the input is the
  result. An error aborts the load: the constructor then returns no database.
\<close>

function readStream ::
    "(byte list \<Rightarrow> 'r option) \<Rightarrow> ('s \<Rightarrow> 'r \<Rightarrow> 's) \<Rightarrow> 's \<Rightarrow> byte list \<Rightarrow> loadError + 's" where
  "readStream unmarshal step st bs =
     (case readFull 4 bs of
        Inl e \<Rightarrow> (if e = EOF then Inr st else Inl (ReadSizeError e))
      | Inr (hdr, rest) \<Rightarrow>
          (case readFull (le32 hdr) rest of
             Inl e \<Rightarrow> Inl (ReadDataError e)
           | Inr (body, rest') \<Rightarrow>
               (case unmarshal body of
                  None \<Rightarrow> Inl UnmarshalError
                | Some r \<Rightarrow> readStream unmarshal step (step st r) rest')))"
  by pat_completeness auto
termination
  by (relation "measure (\<lambda>(unmarshal, step, st, bs). length bs)")
    (auto simp: readFull_def split: if_splits)

declare readStream.simps [simp del]

section \<open>Concrete inputs\<close>

text \<open>
  The inputs on which the model is run below: an empty directory, the document
  \<open>{"id": "1", "age": 30}\<close>, and a database over the primary key \<open>id\<close> given by its
  store, its registry, the records of its two files, whether the files are closed, and
  its counter, with no append pending (\<open>dbState\<close>) or with the pending appends given
  (\<open>dbStateP\<close>).
\<close>

definition emptyDirectory :: directory where
  "emptyDirectory = \<lparr>dataDb = [], walLog = []\<rparr>"

definition exampleDoc :: document where
  "exampleDoc = [''id'' \<mapsto> VStr ''1'', ''age'' \<mapsto> VInt 30]"

definition dbState ::
    "(string \<times> document) list \<Rightarrow> (string \<times> IndexEntry) list \<Rightarrow> docEntry list
       \<Rightarrow> walEntry list \<Rightarrow> bool \<Rightarrow> int \<Rightarrow> Database" where
  "dbState ds idxs drecs wrecs cl n =
     \<lparr>data = ds, indexes = idxs, primaryKey = ''id'',
      dataFile = \<lparr>contents = drecs, closed = cl, full = False\<rparr>,
      walFile = \<lparr>contents = wrecs, closed = cl, full = False\<rparr>, docCount = n,
      pending = []\<rparr>"

definition dbStateP ::
    "(string \<times> document) list \<Rightarrow> (string \<times> IndexEntry) list \<Rightarrow> docEntry list
       \<Rightarrow> walEntry list \<Rightarrow> bool \<Rightarrow> int \<Rightarrow> (bool \<times> docEntry) list \<Rightarrow> Database" where
  "dbStateP ds idxs drecs wrecs cl n ps =
     \<lparr>data = ds, indexes = idxs, primaryKey = ''id'',
      dataFile = \<lparr>contents = drecs, closed = cl, full = False\<rparr>,
      walFile = \<lparr>contents = wrecs, closed = cl, full = False\<rparr>, docCount = n,
      pending = ps\<rparr>"

text \<open>
  The directory an earlier run leaves when it has inserted the document of the examples
  and the append has run before \<open>Close\<close>, and the one it leaves when it has also updated
  \<open>age\<close> to 31 (in both, the log is the one \<open>NewDatabase\<close> will empty).
\<close>

definition insertedDirectory :: directory where
  "insertedDirectory =
     \<lparr>dataDb = [DocEntry ''1'' exampleDoc], walLog = [WalEntry ''INSERT'' ''1'' exampleDoc]\<rparr>"

definition updatedDirectory :: directory where
  "updatedDirectory =
     \<lparr>dataDb = [DocEntry ''1'' exampleDoc, DocEntry ''1'' (exampleDoc(''age'' \<mapsto> VInt 31))],
      walLog = [WalEntry ''INSERT'' ''1'' exampleDoc,
                WalEntry ''UPDATE'' ''1'' (exampleDoc(''age'' \<mapsto> VInt 31))]\<rparr>"

text \<open>
  An instance of the library parameters for the closed examples. None of these examples
  formats a float, folds an upper-case letter or decodes JSON; the codec of the instance
  turns the \<open>int\<close> values of a mapping into \<open>int8\<close> values.
\<close>

fun decodeVal :: "val \<Rightarrow> val" where
  "decodeVal (VInt n) = VInt8 n"
| "decodeVal v = v"

definition exampleLibs :: libs where
  "exampleLibs = \<lparr>fmtFloat32 = (\<lambda>f. ''float32''), fmtFloat64 = (\<lambda>f. ''float64''),
                   toLower = (\<lambda>s. s), jsonUnmarshal = (\<lambda>s. None),
                   msgpackRoundTrip = (\<lambda>d. map_option decodeVal \<circ> d)\<rparr>"

text \<open>The buckets of the single-field index and of the composite index under a key.\<close>

definition bucketsOf :: "Database \<Rightarrow> string \<Rightarrow> buckets" where
  "bucketsOf db key =
     (case map_of (indexes db) key of Some (Single idx) \<Rightarrow> ivalues idx | _ \<Rightarrow> [])"

definition compositeBucketsOf :: "Database \<Rightarrow> string \<Rightarrow> buckets" where
  "compositeBucketsOf db key =
     (case map_of (indexes db) key of Some (Composite idx) \<Rightarrow> cvalues idx | _ \<Rightarrow> [])"

section \<open>Properties of the trie\<close>

lemma decodeRune_size_pos: "p \<noteq> [] \<Longrightarrow> 0 < snd (decodeRune p)"
  by (cases p) (simp_all add: decodeRune_def Let_def)

text \<open>A string has at least as many bytes as code points.\<close>

lemma length_runesOf: "length (runesOf p) \<le> length p"
proof (induction p rule: runesOf.induct)
  case (1 p)
  show ?case
  proof (cases "p = []")
    case True
    then show ?thesis by (simp add: runesOf.simps)
  next
    case False
    define k where "k = snd (decodeRune p)"
    from False have pos: "0 < k" unfolding k_def by (rule decodeRune_size_pos)
    from False have "length (runesOf (drop k p)) \<le> length p - k"
      using 1 by (simp add: k_def)
    moreover from False have "0 < length p" by simp
    ultimately have "Suc (length (runesOf (drop k p))) \<le> length p"
      using pos by arith
    then show ?thesis
      using False by (subst runesOf.simps) (simp add: k_def)
  qed
qed

lemma map_fst_zip_runes: "map fst (zip (rangeRunes w) (bytesOf w)) = rangeRunes w"
  using length_runesOf [of "bytesOf w"]
  by (simp add: rangeRunes_def bytesOf_def map_fst_zip_take min_def)

text \<open>\<open>Remove\<close> returns early exactly when the word has no node in the trie.\<close>

lemma removeWalk_None: "removeWalk ps d node = None \<longleftrightarrow> nodeAt (map fst ps) node = None"
  by (induction ps d node rule: removeWalk.induct)
    (auto split: option.splits prod.splits simp: Let_def)

text \<open>
  After the walk, the node of the word is either gone or its set does not hold the id.
  A deletion under the byte key may hit the child on the path or another child; in both
  cases what is still reachable along the path is the node the id was deleted from.
\<close>

lemma removeWalk_absent:
  "removeWalk ps d node = Some (node', f) \<Longrightarrow> nodeAt (map fst ps) node' = Some n
     \<Longrightarrow> d \<notin> set (docs n)"
proof (induction ps d node arbitrary: node' f n rule: removeWalk.induct)
  case (1 docID node)
  then show ?case by auto
next
  case (2 c b ps docID node)
  then show ?case
    by (auto split: option.splits prod.splits if_splits
          simp: Let_def update_conv' delete_conv')
qed

lemma TrieRemove_absent: "d \<notin> set (terminalDocs (TrieRemove t w d) w)"
proof (cases "removeWalk (zip (rangeRunes w) (bytesOf w)) d (root t)")
  case None
  then have "nodeAt (rangeRunes w) (root t) = None"
    by (simp add: removeWalk_None map_fst_zip_runes)
  with None show ?thesis
    by (simp add: TrieRemove_def terminalDocs_def)
next
  case (Some a)
  obtain r f where a: "a = (r, f)" by (cases a)
  show ?thesis
  proof (cases "nodeAt (rangeRunes w) r")
    case None
    with Some a show ?thesis by (simp add: TrieRemove_def terminalDocs_def)
  next
    case (Some n)
    with \<open>removeWalk _ _ _ = Some a\<close> a have "d \<notin> set (docs n)"
      using removeWalk_absent [of "zip (rangeRunes w) (bytesOf w)" d "root t" r f n]
      by (simp add: map_fst_zip_runes)
    with Some \<open>removeWalk _ _ _ = Some a\<close> a show ?thesis
      by (simp add: TrieRemove_def terminalDocs_def)
  qed
qed

text \<open>\<open>Insert\<close> stores into sets: a second insertion of the same pair changes nothing.\<close>

lemma docs_insertRunes: "docs (insertRunes cs d node) = docs node"
  by (cases cs) (simp_all add: Let_def)

lemma insertRunes_idem: "insertRunes cs d (insertRunes cs d node) = insertRunes cs d node"
proof (induction cs arbitrary: node)
  case Nil
  then show ?case by simp
next
  case (Cons c cs)
  define child where
    "child = (case map_of (children node) c of None \<Rightarrow> TrieNode [] [] | Some n \<Rightarrow> n)"
  define stored where "stored = TrieNode (children child) (List.insert d (docs child))"
  define X where "X = insertRunes cs d stored"
  have dX: "docs X = docs stored" by (simp add: X_def docs_insertRunes)
  have "d \<in> set (docs stored)" by (simp add: stored_def)
  then have "TrieNode (children X) (List.insert d (docs X)) = X"
    by (simp add: dX[symmetric])
  moreover have "insertRunes cs d X = X" by (simp add: X_def Cons.IH)
  moreover have "insertRunes (c # cs) d node
                   = TrieNode (AList.update c X (children node)) (docs node)"
    by (simp add: Let_def X_def stored_def child_def)
  ultimately show ?case
    by (simp add: Let_def update_conv')
qed

lemma TrieInsert_idem: "TrieInsert (TrieInsert t w d) w d = TrieInsert t w d"
  by (simp add: TrieInsert_def insertRunes_idem)

lemma TrieInsert_funpow: "((\<lambda>t. TrieInsert t w d) ^^ Suc n) t = TrieInsert t w d"
  by (induction n) (simp_all add: TrieInsert_idem)

text \<open>
  C7, as stated: after \<open>N\<close> insertions of \<open>(word, id)\<close> and one removal the id is in the
  set of the word's node if and only if \<open>N > 1\<close>. It fails at \<open>N = 2\<close>: the id sets are
  sets, the second insertion stores nothing new and the removal deletes the id.
\<close>

theorem trie_insert_twice_remove_once_counterexample:
  "\<not> (''1'' \<in> set (terminalDocs
                     (TrieRemove (TrieInsert (TrieInsert NewTrie ''a'' ''1'') ''a'' ''1'') ''a'' ''1'')
                     ''a'')
        \<longleftrightarrow> (1::nat) < 2)"
  by code_simp

text \<open>
  C7, amended: for every trie, word, id and number \<open>N\<close> of insertions (so for every
  \<open>N \<ge> 1\<close>), \<open>N + 1\<close> insertions of \<open>(word, id)\<close> build the same trie as one insertion, and
  after \<open>N\<close> insertions followed by one removal the id is not in the set of the word's
  node (the node is pruned or its set does not hold the id).
\<close>

theorem trie_inserts_then_remove_absent:
  "((\<lambda>t. TrieInsert t word docID) ^^ Suc N) t = TrieInsert t word docID \<and>
   docID \<notin> set (terminalDocs
                   (TrieRemove (((\<lambda>t. TrieInsert t word docID) ^^ N) t) word docID) word)"
  using TrieInsert_funpow [where w = word and d = docID and n = N and t = t]
    TrieRemove_absent [where d = docID and w = word
      and t = "((\<lambda>t. TrieInsert t word docID) ^^ N) t"]
  by simp

section \<open>Properties of the read loop\<close>

lemma le32_putLe32: "n < 2 ^ 32 \<Longrightarrow> le32 (putLe32 n) = n"
proof -
  assume n: "n < 2 ^ 32"
  have "n div 16777216 < 256" using n by simp
  then have d3: "(n div 16777216) mod 256 = n div 16777216" by simp
  have a: "n = 256 * (n div 256) + n mod 256" by simp
  have b: "n div 256 = 256 * (n div 256 div 256) + (n div 256) mod 256" by simp
  have c: "n div 65536 = 256 * (n div 65536 div 256) + (n div 65536) mod 256" by simp
  have e: "n div 256 div 256 = n div 65536" "n div 65536 div 256 = n div 16777216"
    by (simp_all add: div_mult2_eq[symmetric])
  have s: "n mod 256 + 256 * ((n div 256) mod 256) + 65536 * ((n div 65536) mod 256)
        + 16777216 * (n div 16777216) = n"
    using a b c e by linarith
  show ?thesis
    using s d3 by (simp add: le32_def putLe32_def unat_of_nat)
qed

lemma readFull_append: "readFull (length a) (a @ b) = Inr (a, b)"
  by (simp add: readFull_def)

text \<open>One turn of the loop on a complete frame.\<close>

lemma readStream_frame:
  assumes "length body < 2 ^ 32"
  shows "readStream unmarshal step st (frame body @ rest) =
    (case unmarshal body of
       None \<Rightarrow> Inl UnmarshalError
     | Some r \<Rightarrow> readStream unmarshal step (step st r) rest)"
proof -
  have h: "readFull 4 (frame body @ rest) = Inr (putLe32 (length body), body @ rest)"
    using assms by (simp add: frame_def putLe32_def readFull_def)
  show ?thesis
    using assms
    by (subst readStream.simps) (simp add: h le32_putLe32 readFull_append)
qed

lemma readStream_frames_decoded:
  assumes "\<And>r. r \<in> set rs
             \<Longrightarrow> unmarshal (marshal r) = Some (decoded r) \<and> length (marshal r) < 2 ^ 32"
  shows "readStream unmarshal step st (framesOf marshal rs @ rest)
         = readStream unmarshal step (foldl step st (map decoded rs)) rest"
  using assms
proof (induction rs arbitrary: st)
  case Nil
  then show ?case by (simp add: framesOf_def)
next
  case (Cons r rs)
  then have "readStream unmarshal step (step st (decoded r)) (framesOf marshal rs @ rest)
             = readStream unmarshal step (foldl step (step st (decoded r)) (map decoded rs)) rest"
    by simp
  moreover have "unmarshal (marshal r) = Some (decoded r)" "length (marshal r) < 2 ^ 32"
    using Cons.prems by simp_all
  ultimately show ?case
    by (simp add: framesOf_def readStream_frame)
qed

lemma readStream_frames:
  assumes "\<And>r. r \<in> set rs \<Longrightarrow> unmarshal (marshal r) = Some r \<and> length (marshal r) < 2 ^ 32"
  shows "readStream unmarshal step st (framesOf marshal rs @ rest)
         = readStream unmarshal step (foldl step st rs) rest"
  using readStream_frames_decoded [where decoded = "\<lambda>r. r" and rs = rs, OF assms]
  by simp

lemma readStream_nil: "readStream unmarshal step st [] = Inr st"
  by (subst readStream.simps) (simp add: readFull_def)

lemma readStream_short_header:
  "0 < length bs \<Longrightarrow> length bs < 4
     \<Longrightarrow> readStream unmarshal step st bs = Inl (ReadSizeError ErrUnexpectedEOF)"
  by (subst readStream.simps) (auto simp add: readFull_def)

lemma readStream_short_body:
  "length hdr = 4 \<Longrightarrow> length body < le32 hdr \<Longrightarrow>
   readStream unmarshal step st (hdr @ body)
     = Inl (ReadDataError (if body = [] then EOF else ErrUnexpectedEOF))"
  by (subst readStream.simps) (auto simp add: readFull_def)

text \<open>
  The records of a file stand for its frames: when the decoder returns for the bytes
  written for a record of the data file what the codec returns for that record, the
  byte-level loop of \<open>loadData\<close> over the frames written for the records ends in the
  database \<open>loadData\<close> computes from the records; the same holds for \<open>recoverFromWAL\<close>.
\<close>

lemma loadData_frames:
  assumes "\<And>r. r \<in> set (contents (dataFile db))
             \<Longrightarrow> unmarshal (marshal r) = Some (decodeDocEntry L r)
                 \<and> length (marshal r) < 2 ^ 32"
  shows "readStream unmarshal (loadEntry L) db (framesOf marshal (contents (dataFile db)))
         = Inr (loadData L db)"
  using readStream_frames_decoded [where rest = "[]" and step = "loadEntry L" and st = db
      and decoded = "decodeDocEntry L", OF assms]
  by (simp add: readStream_nil loadData_def)

lemma recoverFromWAL_frames:
  assumes "\<And>r. r \<in> set (contents (walFile db))
             \<Longrightarrow> unmarshal (marshal r) = Some (decodeWalEntry L r)
                 \<and> length (marshal r) < 2 ^ 32"
  shows "readStream unmarshal replayEntry db (framesOf marshal (contents (walFile db)))
         = Inr (recoverFromWAL L db)"
  using readStream_frames_decoded [where rest = "[]" and step = replayEntry and st = db
      and decoded = "decodeWalEntry L", OF assms]
  by (simp add: readStream_nil recoverFromWAL_def)

text \<open>
  C9, as stated: a short read of the length header at the end of the file ends the load
  with success. It fails for a file that ends one byte into a header: \<open>binary.Read\<close>
  returns \<open>io.ErrUnexpectedEOF\<close>, which is not \<open>io.EOF\<close>, and the load returns an error.
\<close>

theorem readStream_partial_header_counterexample:
  "readStream (\<lambda>b. Some b) (\<lambda>st r. st @ [r]) [] [1 :: byte]
     = Inl (ReadSizeError ErrUnexpectedEOF)"
  by (subst readStream.simps) (simp add: readFull_def)

text \<open>
  C9, amended: the loop reads frame after frame until the input ends. After any number
  of complete frames (whose bodies decode), an input that ends exactly there ends the load
  with success, every record applied in order; an input that ends one to three bytes
  into a length header is an error; and a body shorter than its header declares is an
  error. Both errors abort the load.
\<close>

theorem readStream_end_of_input:
  "(\<forall>r \<in> set rs. unmarshal (marshal r) = Some r \<and> length (marshal r) < 2 ^ 32) \<Longrightarrow>
   readStream unmarshal step st (framesOf marshal rs) = Inr (foldl step st rs) \<and>
   (0 < length tail \<and> length tail < 4 \<longrightarrow>
      readStream unmarshal step st (framesOf marshal rs @ tail)
        = Inl (ReadSizeError ErrUnexpectedEOF)) \<and>
   (length hdr = 4 \<and> length body < le32 hdr \<longrightarrow>
      readStream unmarshal step st (framesOf marshal rs @ hdr @ body)
        = Inl (ReadDataError (if body = [] then EOF else ErrUnexpectedEOF)))"
proof -
  assume "\<forall>r \<in> set rs. unmarshal (marshal r) = Some r \<and> length (marshal r) < 2 ^ 32"
  then have codec:
    "\<And>r. r \<in> set rs \<Longrightarrow> unmarshal (marshal r) = Some r \<and> length (marshal r) < 2 ^ 32"
    by blast
  have skip: "readStream unmarshal step st (framesOf marshal rs @ rest)
              = readStream unmarshal step (foldl step st rs) rest" for rest
    using codec by (rule readStream_frames)
  have "readStream unmarshal step st (framesOf marshal rs) = Inr (foldl step st rs)"
    using skip [of "[]"] by (simp add: readStream_nil)
  moreover have "0 < length tail \<and> length tail < 4 \<longrightarrow>
      readStream unmarshal step st (framesOf marshal rs @ tail)
        = Inl (ReadSizeError ErrUnexpectedEOF)"
    by (simp add: skip readStream_short_header)
  moreover have "length hdr = 4 \<and> length body < le32 hdr \<longrightarrow>
      readStream unmarshal step st (framesOf marshal rs @ hdr @ body)
        = Inl (ReadDataError (if body = [] then EOF else ErrUnexpectedEOF))"
    using readStream_short_body [of hdr body unmarshal step "foldl step st rs"]
    by (simp add: skip)
  ultimately show ?thesis by blast
qed

theorem readStream_end_of_input_witness:
  "readStream (\<lambda>b. Some b) (\<lambda>st r. st @ [r]) [] (framesOf (\<lambda>b. b) [[1, 2 :: byte]])
     = Inr [[1, 2]] \<and>
   readStream (\<lambda>b. Some b) (\<lambda>st r. st @ [r]) [] (framesOf (\<lambda>b. b) [[1, 2 :: byte]] @ [7])
     = Inl (ReadSizeError ErrUnexpectedEOF) \<and>
   readStream (\<lambda>b. Some b) (\<lambda>st r. st @ [r]) []
       (framesOf (\<lambda>b. b) [[1, 2 :: byte]] @ [5, 0, 0, 0] @ [9])
     = Inl (ReadDataError ErrUnexpectedEOF)"
  using readStream_end_of_input [where unmarshal = "\<lambda>b. Some b" and marshal = "\<lambda>b. b"
      and rs = "[[1, 2 :: byte]]" and step = "\<lambda>st r. st @ [r]" and st = "[]"
      and tail = "[7]" and hdr = "[5, 0, 0, 0]" and body = "[9]"]
  by (simp add: le32_def)

section \<open>Running the model on the concrete inputs\<close>

lemmas op_defs = Insert_def Update_def Delete_def Close_def NewDatabase_def directoryOf_def
  parseInput_def Get_def Count_def writeWAL_def writeToDataFile_def asyncWriteToDataFile_def
  startAppend_def runPending_def runSchedule_def awaitTracked_def
  fileWrite_def indexAll_def updateAll_def removeAllIndexes_def loadData_def loadEntry_def
  decodeDocEntry_def decodeWalEntry_def
  recoverFromWAL_def replayEntry_def OperationInsert_def OperationUpdate_def
  OperationDelete_def emptyDirectory_def dbState_def dbStateP_def Let_def

lemma exampleDoc_fields:
  "exampleDoc ''id'' = Some (VStr ''1'')" "exampleDoc ''age'' = Some (VInt 30)"
  "exampleDoc ''name'' = None"
  by (simp_all add: exampleDoc_def)

lemma fmtInt_30: "fmtInt 30 = ''30''"
  by code_simp

lemma fmtInt_31: "fmtInt 31 = ''31''"
  by code_simp

lemma excessBits_small: "a < 9007199254740992 \<Longrightarrow> excessBits a = 0"
  by (subst excessBits.simps) simp

lemma float64_of_int_small:
  "- 9007199254740992 < n \<Longrightarrow> n < 9007199254740992 \<Longrightarrow> float64_of_int n = F (of_int n)"
proof -
  assume a: "- 9007199254740992 < n" "n < 9007199254740992"
  show ?thesis
  proof (cases "n < 0")
    case True
    with a have "nat (- n) < 9007199254740992" by linarith
    then have "excessBits (nat (- n)) = 0" by (rule excessBits_small)
    with True show ?thesis by (simp add: float64_of_int_def roundSignificand_def)
  next
    case False
    with a have "nat n < 9007199254740992" by linarith
    then have "excessBits (nat n) = 0" by (rule excessBits_small)
    with False show ?thesis by (simp add: float64_of_int_def roundSignificand_def)
  qed
qed

lemma float64_of_int_30: "float64_of_int 30 = F 30"
  by (simp add: float64_of_int_small)

lemma int64_of_float64_30: "int64_of_float64 (F (61 / 2)) = 30"
  by code_simp

lemma int64_of_float64_40: "int64_of_float64 (F (81 / 2)) = 40"
  by code_simp

lemma int64_of_float64_1: "int64_of_float64 (F (3 / 2)) = 1"
  by code_simp

lemma float64_of_int_1: "float64_of_int 1 = F 1"
  by (simp add: float64_of_int_small)

lemma dbState_dbStateP: "dbState ds idxs drecs wrecs cl n = dbStateP ds idxs drecs wrecs cl n []"
  by (simp add: dbState_def dbStateP_def)

lemma run_NewDatabase: "NewDatabase L ''id'' emptyDirectory = dbState [] [] [] [] False 0"
  by (simp add: op_defs)

lemma run_NewDatabase_no_records:
  "NewDatabase L ''id'' \<lparr>dataDb = [], walLog = wrecs\<rparr> = dbState [] [] [] [] False 0"
  by (simp add: op_defs)

text \<open>When \<open>Insert\<close> returns, the data file is as it was and the append is pending.\<close>

lemma run_Insert:
  "Insert L (dbStateP [] [] [] [] False 0 []) (DocMap exampleDoc) =
     (None, dbStateP [(''1'', exampleDoc)] [] [] [WalEntry ''INSERT'' ''1'' exampleDoc] False 1
              [(False, DocEntry ''1'' exampleDoc)])"
  by (simp add: op_defs exampleDoc_fields)

lemma run_runSchedule_nil: "runSchedule [] db = db"
  by (simp add: runSchedule_def)

lemma run_runSchedule_first:
  "runSchedule [0] (dbStateP ds idxs drecs wrecs False n ((t, DocEntry k d) # ps)) =
     dbStateP ds idxs (drecs @ [DocEntry k d]) wrecs False n ps"
  by (simp add: op_defs)

lemma run_runSchedule_first_closed:
  "runSchedule [0] (dbStateP ds idxs drecs wrecs True n ((t, DocEntry k d) # ps)) =
     dbStateP ds idxs drecs wrecs True n ps"
  by (simp add: op_defs)

lemma run_Delete:
  "Delete L (dbStateP [(''1'', d)] [] drecs wrecs False n ps) ''1'' =
     (None, dbStateP [] [] drecs (wrecs @ [WalEntry ''DELETE'' ''1'' Map.empty]) False (n - 1) ps)"
  by (simp add: op_defs)

lemma run_Close:
  "Close [] (dbStateP ds idxs drecs wrecs False n []) = (None, dbStateP ds idxs drecs wrecs True n [])"
  by (simp add: op_defs)

lemma run_Close_untracked:
  "Close [] (dbStateP ds idxs drecs wrecs False n [(False, e)])
     = (None, dbStateP ds idxs drecs wrecs True n [(False, e)])"
  by (simp add: op_defs)

lemma run_Close_tracked:
  "Close [] (dbStateP ds idxs drecs wrecs False n [(True, DocEntry k d)])
     = (None, dbStateP ds idxs (drecs @ [DocEntry k d]) wrecs True n [])"
  by (simp add: op_defs)

lemma run_Update:
  "Update L (dbStateP [(''1'', exampleDoc)] [] drecs wrecs False n ps) ''1''
       [''age'' \<mapsto> VInt 31] =
     (None, dbStateP [(''1'', exampleDoc(''age'' \<mapsto> VInt 31))] [] drecs
              (wrecs @ [WalEntry ''UPDATE'' ''1'' (exampleDoc(''age'' \<mapsto> VInt 31))]) False n
              (ps @ [(True, DocEntry ''1'' (exampleDoc(''age'' \<mapsto> VInt 31)))]))"
  by (simp add: op_defs)

lemma run_CreateIndex:
  "CreateIndex L (dbStateP [(''1'', exampleDoc)] [] drecs wrecs cl n ps) ''age'' =
     dbStateP [(''1'', exampleDoc)]
       [(''age'', Single \<lparr>field = ''age'', ivalues = [(VFloat64 (F 30), [''1''])],
                           trie = TrieInsert NewTrie (toLower L (fmtFloat64 L (F 30))) ''1''\<rparr>)]
       drecs wrecs cl n ps"
  by (simp add: CreateIndex_def dbStateP_def indexDocument_def exampleDoc_fields
        float64_of_int_30)

lemma run_Update_indexed:
  "Update L (dbStateP [(''1'', exampleDoc)]
       [(''age'', Single \<lparr>field = ''age'', ivalues = [(VFloat64 (F 30), [''1''])],
                           trie = t\<rparr>)]
       drecs wrecs False n ps)
     ''1'' [''age'' \<mapsto> VInt 31] =
   (None, dbStateP [(''1'', exampleDoc(''age'' \<mapsto> VInt 31))]
       [(''age'', Single \<lparr>field = ''age'',
                           ivalues = [(VFloat64 (F 30), [''1'']), (VInt 31, [''1''])],
                           trie = TrieInsert (TrieRemove t (toLower L ''30'') ''1'')
                                    (toLower L ''31'') ''1''\<rparr>)]
       drecs (wrecs @ [WalEntry ''UPDATE'' ''1'' (exampleDoc(''age'' \<mapsto> VInt 31))]) False n
       (ps @ [(True, DocEntry ''1'' (exampleDoc(''age'' \<mapsto> VInt 31)))]))"
  by (simp add: op_defs updateIndex_def fieldOrNil_def exampleDoc_fields fmtInt_30 fmtInt_31)

lemma run_CreateCompositeIndex:
  "CreateCompositeIndex L (dbStateP [(''1'', exampleDoc)] [] drecs wrecs cl n ps)
       [''age'', ''name''] =
     dbStateP [(''1'', exampleDoc)]
       [(''age-name'', Composite \<lparr>cfields = [''age'', ''name''],
                                    cvalues = [(VStr ''30-'', [''1''])]\<rparr>)]
       drecs wrecs cl n ps"
  by (simp add: CreateCompositeIndex_def dbStateP_def indexDocumentComposite_def
        compositeKeyOf_def exampleDoc_fields fmtInt_30 fmtInt_31)

lemma run_Update_composite:
  "Update L (dbStateP [(''1'', exampleDoc)]
       [(''age-name'', Composite \<lparr>cfields = [''age'', ''name''],
                                    cvalues = [(VStr ''30-'', [''1''])]\<rparr>)]
       drecs wrecs False n ps)
     ''1'' [''age'' \<mapsto> VInt 31] =
   (None, dbStateP [(''1'', exampleDoc(''age'' \<mapsto> VInt 31))]
       [(''age-name'', Composite \<lparr>cfields = [''age'', ''name''],
            cvalues = [(VStr ''30-'', [''1'']), (VStr ''31-<nil>'', [''1''])]\<rparr>)]
       drecs (wrecs @ [WalEntry ''UPDATE'' ''1'' (exampleDoc(''age'' \<mapsto> VInt 31))]) False n
       (ps @ [(True, DocEntry ''1'' (exampleDoc(''age'' \<mapsto> VInt 31)))]))"
  by (simp add: op_defs updateCompositeIndex_def updateKeyOf_def fieldOrNil_def
        exampleDoc_fields fmtInt_30 fmtInt_31)

lemma run_RangeQuery_scan:
  "RangeQuery L (dbStateP [(''1'', exampleDoc)] [] drecs wrecs cl n ps) ''age''
      (VFloat64 (F (61 / 2))) (VFloat64 (F (81 / 2))) = Inr [exampleDoc]"
  by (simp add: RangeQuery_def dbStateP_def exampleDoc_fields inRange_def compareValues_def
        int64_of_float64_30 int64_of_float64_40 threeWayInt_def)

lemma run_RangeQuery_index:
  "RangeQuery L (dbStateP [(''1'', exampleDoc)]
       [(''age'', Single \<lparr>field = ''age'', ivalues = [(VFloat64 (F 30), [''1''])], trie = t\<rparr>)]
       drecs wrecs cl n ps) ''age''
      (VFloat64 (F (61 / 2))) (VFloat64 (F (81 / 2))) = Inr []"
  by (simp add: RangeQuery_def dbStateP_def inRange_def compareValues_def threeWayFloat_def)

lemma int64_of_float64_30q: "int64_of_float64 (F (121 / 4)) = 30"
  by code_simp

lemma int64_of_float64_30t: "int64_of_float64 (F (123 / 4)) = 30"
  by code_simp

lemma run_RangeQuery_scan_empty_range:
  "RangeQuery L (dbStateP [(''1'', exampleDoc)] [] drecs wrecs cl n ps) ''age''
      (VFloat64 (F (123 / 4))) (VFloat64 (F (121 / 4))) = Inr [exampleDoc]"
  by (simp add: RangeQuery_def dbStateP_def exampleDoc_fields inRange_def compareValues_def
        int64_of_float64_30q int64_of_float64_30t threeWayInt_def)

lemma run_bucketsOf:
  "bucketsOf (dbStateP ds [(k, Single idx)] drecs wrecs cl n ps) k = ivalues idx"
  by (simp add: bucketsOf_def dbStateP_def)

lemma run_compositeBucketsOf:
  "compositeBucketsOf (dbStateP ds [(k, Composite idx)] drecs wrecs cl n ps) k = cvalues idx"
  by (simp add: compositeBucketsOf_def dbStateP_def)

lemma run_Get: "Get (dbStateP ds idxs drecs wrecs cl n ps) k = map_of ds k"
  by (simp add: Get_def dbStateP_def)

lemma run_Count: "Count (dbStateP ds idxs drecs wrecs cl n ps) = n"
  by (simp add: Count_def dbStateP_def)

lemma run_data: "data (dbStateP ds idxs drecs wrecs cl n ps) = ds"
  by (simp add: dbStateP_def)

lemma run_primaryKey: "primaryKey (dbStateP ds idxs drecs wrecs cl n ps) = ''id''"
  by (simp add: dbStateP_def)

lemma run_pending: "pending (dbStateP ds idxs drecs wrecs cl n ps) = ps"
  by (simp add: dbStateP_def)

lemma run_directoryOf:
  "directoryOf (dbStateP ds idxs drecs wrecs cl n ps) = \<lparr>dataDb = drecs, walLog = wrecs\<rparr>"
  by (simp add: directoryOf_def dbStateP_def)

section \<open>The store and its files\<close>

subsection \<open>What the constructor builds from the data file\<close>

lemma loadEntry_dataFile: "dataFile (loadEntry L db e) = dataFile db"
  by (simp add: loadEntry_def indexAll_def Let_def)

lemma loadEntry_walFile: "walFile (loadEntry L db e) = walFile db"
  by (simp add: loadEntry_def indexAll_def Let_def)

lemma loadEntry_pending: "pending (loadEntry L db e) = pending db"
  by (simp add: loadEntry_def indexAll_def Let_def)

lemma loadEntry_data:
  "data (loadEntry L db e) = AList.update (entryID e) (entryData e) (data db)"
  by (simp add: loadEntry_def indexAll_def Let_def)

lemma loadEntry_docCount: "docCount (loadEntry L db e) = docCount db + 1"
  by (simp add: loadEntry_def indexAll_def Let_def)

lemma foldl_loadEntry_dataFile: "dataFile (foldl (loadEntry L) db es) = dataFile db"
  by (induction es arbitrary: db) (simp_all add: loadEntry_dataFile)

lemma foldl_loadEntry_walFile: "walFile (foldl (loadEntry L) db es) = walFile db"
  by (induction es arbitrary: db) (simp_all add: loadEntry_walFile)

lemma foldl_loadEntry_pending: "pending (foldl (loadEntry L) db es) = pending db"
  by (induction es arbitrary: db) (simp_all add: loadEntry_pending)

lemma foldl_loadEntry_docCount:
  "docCount (foldl (loadEntry L) db es) = docCount db + int (length es)"
  by (induction es arbitrary: db) (simp_all add: loadEntry_docCount)

text \<open>The store has one entry for each id that has a record, however many records it has.\<close>

lemma foldl_loadEntry_keys:
  "distinct (map fst (data db)) \<Longrightarrow>
   distinct (map fst (data (foldl (loadEntry L) db es))) \<and>
   set (map fst (data (foldl (loadEntry L) db es)))
     = set (map fst (data db)) \<union> entryID ` set es"
proof (induction es arbitrary: db)
  case Nil
  then show ?case by simp
next
  case (Cons e es)
  have d: "distinct (map fst (data (loadEntry L db e)))"
    using Cons.prems by (simp add: loadEntry_data distinct_update)
  have s: "set (map fst (data (loadEntry L db e))) = insert (entryID e) (set (map fst (data db)))"
    by (auto simp add: loadEntry_data update_keys)
  show ?case
    using Cons.IH [OF d] s by auto
qed

text \<open>
  The log is empty when \<open>recoverFromWAL\<close> reads it, so the database the constructor
  returns is the one \<open>loadData\<close> built from the decoded records of the data file.
\<close>

lemma NewDatabase_loaded:
  "NewDatabase L pk dir =
     foldl (loadEntry L)
       \<lparr>data = [], indexes = [], primaryKey = pk,
        dataFile = \<lparr>contents = dataDb dir, closed = False, full = False\<rparr>,
        walFile = \<lparr>contents = [], closed = False, full = False\<rparr>,
        docCount = 0, pending = []\<rparr>
       (map (decodeDocEntry L) (dataDb dir))"
  by (simp add: NewDatabase_def loadData_def recoverFromWAL_def Let_def
        foldl_loadEntry_walFile)

lemma NewDatabase_dataFile:
  "dataFile (NewDatabase L pk dir) = \<lparr>contents = dataDb dir, closed = False, full = False\<rparr>"
  by (simp add: NewDatabase_loaded foldl_loadEntry_dataFile)

lemma NewDatabase_walFile:
  "walFile (NewDatabase L pk dir) = \<lparr>contents = [], closed = False, full = False\<rparr>"
  by (simp add: NewDatabase_loaded foldl_loadEntry_walFile)

lemma NewDatabase_pending: "pending (NewDatabase L pk dir) = []"
  by (simp add: NewDatabase_loaded foldl_loadEntry_pending)

lemma NewDatabase_docCount: "docCount (NewDatabase L pk dir) = int (length (dataDb dir))"
  by (simp add: NewDatabase_loaded foldl_loadEntry_docCount)

lemma entryID_decodeDocEntry: "entryID (decodeDocEntry L e) = entryID e"
  by (simp add: decodeDocEntry_def)

lemma NewDatabase_keys:
  "distinct (map fst (data (NewDatabase L pk dir)))"
  "set (map fst (data (NewDatabase L pk dir))) = entryID ` set (dataDb dir)"
  using foldl_loadEntry_keys
    [where L = L and es = "map (decodeDocEntry L) (dataDb dir)"
       and db = "\<lparr>data = [], indexes = [], primaryKey = pk,
                   dataFile = \<lparr>contents = dataDb dir, closed = False, full = False\<rparr>,
                   walFile = \<lparr>contents = [], closed = False, full = False\<rparr>,
                   docCount = 0, pending = []\<rparr>"]
  by (simp_all add: NewDatabase_loaded image_image entryID_decodeDocEntry)

lemma NewDatabase_Get:
  "k \<in> entryID ` set (dataDb dir) \<Longrightarrow> Get (NewDatabase L pk dir) k \<noteq> None"
  using NewDatabase_keys(2) [of L pk dir]
  by (simp add: Get_def map_of_eq_None_iff)

lemma NewDatabase_length_data:
  "length (data (NewDatabase L pk dir)) = card (entryID ` set (dataDb dir))"
  using NewDatabase_keys [of L pk dir] distinct_card [of "map fst (data (NewDatabase L pk dir))"]
  by simp

lemma NewDatabase_same_data_file:
  "dataDb dir' = dataDb dir \<Longrightarrow> NewDatabase L pk dir' = NewDatabase L pk dir"
  by (simp add: NewDatabase_def)

subsection \<open>Delete, and Close with no append pending\<close>

lemma Delete_stored:
  assumes "Get db k \<noteq> None" and "\<not> closed (walFile db)" and "\<not> full (walFile db)"
  shows "fst (Delete L db k) = None"
    and "Get (snd (Delete L db k)) k = None"
    and "dataFile (snd (Delete L db k)) = dataFile db"
    and "pending (snd (Delete L db k)) = pending db"
    and "\<not> closed (walFile (snd (Delete L db k)))"
  using assms
  by (auto simp add: Delete_def Let_def writeWAL_def fileWrite_def removeAllIndexes_def
        Get_def delete_conv')

lemma runPending_none: "pending db = [] \<Longrightarrow> runPending i db = db"
  by (simp add: runPending_def)

lemma runSchedule_none: "pending db = [] \<Longrightarrow> runSchedule sched db = db"
  by (induction sched) (simp_all add: runSchedule_def runPending_none)

lemma awaitTracked_none: "pending db = [] \<Longrightarrow> awaitTracked db = db"
  by (simp add: awaitTracked_def)

lemma Close_none_pending:
  assumes "pending db = []" and "\<not> closed (dataFile db)" and "\<not> closed (walFile db)"
  shows "fst (Close sched db) = None"
    and "dataDb (directoryOf (snd (Close sched db))) = contents (dataFile db)"
  using assms
  by (simp_all add: Close_def Let_def runSchedule_none awaitTracked_none directoryOf_def)

subsection \<open>The directories of the examples\<close>

text \<open>
  The two directories are what a run leaves in which the append of \<open>Insert\<close> has run
  before \<open>Close\<close> is called; the append of \<open>Update\<close> runs at the latest while \<open>Close\<close>
  waits for it.
\<close>

lemma insertedDirectory_left_by_Insert:
  "let db0 = NewDatabase L ''id'' emptyDirectory;
       (e1, db1) = Insert L db0 (DocMap exampleDoc);
       (e2, db2) = Close [] (runSchedule [0] db1)
   in e1 = None \<and> e2 = None \<and> directoryOf db2 = insertedDirectory"
  by (simp add: run_NewDatabase dbState_dbStateP run_Insert run_runSchedule_first run_Close
        run_directoryOf insertedDirectory_def)

lemma updatedDirectory_left_by_Update:
  "let db0 = NewDatabase L ''id'' emptyDirectory;
       (e1, db1) = Insert L db0 (DocMap exampleDoc);
       (e2, db2) = Update L (runSchedule [0] db1) ''1'' [''age'' \<mapsto> VInt 31];
       (e3, db3) = Close [] db2
   in e1 = None \<and> e2 = None \<and> e3 = None \<and> directoryOf db3 = updatedDirectory"
  by (simp add: run_NewDatabase dbState_dbStateP run_Insert run_runSchedule_first run_Update
        run_Close_tracked run_directoryOf updatedDirectory_def)

text \<open>
  When the append of \<open>Insert\<close> has not run before \<open>Close\<close> has closed the data file, it
  finds the handle closed and the record is in no file: the reopened store does not have
  the document.
\<close>

lemma Insert_append_after_Close:
  "let db0 = NewDatabase L ''id'' emptyDirectory;
       (e1, db1) = Insert L db0 (DocMap exampleDoc);
       (e2, db2) = Close [] db1;
       db3 = runSchedule [0] db2;
       reopened = NewDatabase L ''id'' (directoryOf db3)
   in e1 = None \<and> e2 = None \<and> Get db1 ''1'' = Some exampleDoc \<and> pending db3 = [] \<and>
      Get reopened ''1'' = None"
  by (simp add: run_NewDatabase dbState_dbStateP run_Insert run_Close_untracked
        run_runSchedule_first_closed run_directoryOf run_Get run_pending
        run_NewDatabase_no_records)

lemma decodeVal_exampleDoc:
  "map_option decodeVal \<circ> exampleDoc = exampleDoc(''age'' \<mapsto> VInt8 30)"
  by (rule ext) (simp add: exampleDoc_def)

lemma run_NewDatabase_inserted:
  "NewDatabase exampleLibs ''id'' insertedDirectory =
     dbState [(''1'', exampleDoc(''age'' \<mapsto> VInt8 30))] [] [DocEntry ''1'' exampleDoc] [] False 1"
  by (simp add: NewDatabase_loaded insertedDirectory_def loadEntry_def indexAll_def
        decodeDocEntry_def exampleLibs_def decodeVal_exampleDoc dbState_def)

text \<open>
  C1: after acknowledged inserts, updates and deletes, \<open>Close\<close> and a reopen of the same
  directory, \<open>Get\<close> returns for every id what it returned before \<open>Close\<close>.

  The code does not do this. \<open>Delete\<close> writes to the log only, \<open>NewDatabase\<close> empties the
  log before \<open>recoverFromWAL\<close> reads it, and the data file still holds the records of the
  deleted document. Open a directory whose data file has a record for the id \<open>k\<close>:
  \<open>Get(k)\<close> finds the document. After \<open>Delete(k)\<close> it finds none. After \<open>Close\<close> and a
  reopen it finds the document it found before the deletion. No append is pending at any
  moment of this run, so it is the same under every schedule.
\<close>

theorem reopen_restores_deleted_document:
  "k \<in> entryID ` set (dataDb dir) \<Longrightarrow>
   (let db0 = NewDatabase L pk dir;
        (e1, db1) = Delete L db0 k;
        (e2, db2) = Close sched db1;
        reopened = NewDatabase L pk (directoryOf db2)
    in Get db0 k \<noteq> None \<and> e1 = None \<and> Get db1 k = None \<and> pending db1 = [] \<and>
       e2 = None \<and> Get reopened k = Get db0 k)"
proof -
  assume k: "k \<in> entryID ` set (dataDb dir)"
  let ?db0 = "NewDatabase L pk dir"
  let ?db1 = "snd (Delete L ?db0 k)"
  let ?db2 = "snd (Close sched ?db1)"
  have g0: "Get ?db0 k \<noteq> None"
    using k by (rule NewDatabase_Get)
  have w0: "\<not> closed (walFile ?db0)" "\<not> full (walFile ?db0)"
    by (simp_all add: NewDatabase_walFile)
  note del = Delete_stored [where L = L, OF g0 w0]
  have p1: "pending ?db1 = []"
    by (simp add: del(4) NewDatabase_pending)
  have f1: "\<not> closed (dataFile ?db1)"
    by (simp add: del(3) NewDatabase_dataFile)
  note cl = Close_none_pending [where sched = sched, OF p1 f1 del(5)]
  have "dataDb (directoryOf ?db2) = dataDb dir"
    by (simp add: cl(2) del(3) NewDatabase_dataFile)
  then have r: "NewDatabase L pk (directoryOf ?db2) = ?db0"
    by (rule NewDatabase_same_data_file)
  show ?thesis
    using g0 del(1) del(2) p1 cl(1) r
    by (simp add: Let_def case_prod_unfold)
qed

text \<open>
  An instance: the directory left by a run that has inserted \<open>{"id": "1", "age": 30}\<close>.
  The document found after the reopen is the decoded one, as it was found before the
  deletion.
\<close>

theorem reopen_restores_deleted_document_witness:
  "''1'' \<in> entryID ` set (dataDb insertedDirectory) \<and>
   (let db0 = NewDatabase exampleLibs ''id'' insertedDirectory;
        (e1, db1) = Delete exampleLibs db0 ''1'';
        (e2, db2) = Close [] db1;
        reopened = NewDatabase exampleLibs ''id'' (directoryOf db2)
    in Get db0 ''1'' = Some (exampleDoc(''age'' \<mapsto> VInt8 30)) \<and> e1 = None \<and>
       Get db1 ''1'' = None \<and> pending db1 = [] \<and> e2 = None \<and>
       Get reopened ''1'' = Some (exampleDoc(''age'' \<mapsto> VInt8 30)))"
proof -
  have h: "''1'' \<in> entryID ` set (dataDb insertedDirectory)"
    by (simp add: insertedDirectory_def)
  have g: "Get (NewDatabase exampleLibs ''id'' insertedDirectory) ''1''
             = Some (exampleDoc(''age'' \<mapsto> VInt8 30))"
    by (simp add: run_NewDatabase_inserted dbState_dbStateP run_Get)
  show ?thesis
    using h g
      reopen_restores_deleted_document [where k = "''1''" and dir = insertedDirectory
        and L = exampleLibs and pk = "''id''" and sched = "[]", OF h]
    by (simp add: Let_def case_prod_unfold)
qed

text \<open>
  C8: at every quiescent point, also after a restart, \<open>Count()\<close> is the number of
  documents stored.

  The code does not do this after a restart. \<open>loadData\<close> adds one to the counter for
  every record of the data file, and stores the document of a record under its id: the
  counter of the database the constructor returns is the number of records, and the
  number of documents stored is the number of different ids among them. \<open>Update\<close>
  appends a further record for an id that already has one: on the directory left by one
  insertion and one update the store holds one document and \<open>Count()\<close> is 2. No append
  is started when a directory is opened, so this is the same under every schedule.
\<close>

theorem Count_after_reopen_counts_records:
  "Count (NewDatabase L pk dir) = int (length (dataDb dir)) \<and>
   length (data (NewDatabase L pk dir)) = card (entryID ` set (dataDb dir)) \<and>
   Count (NewDatabase L ''id'' updatedDirectory) = 2 \<and>
   length (data (NewDatabase L ''id'' updatedDirectory)) = 1"
proof -
  have c: "Count (NewDatabase L pk' dir') = int (length (dataDb dir'))" for pk' dir'
    by (simp add: Count_def NewDatabase_docCount)
  have "entryID ` set (dataDb updatedDirectory) = {''1''}"
    by (simp add: updatedDirectory_def)
  then have "length (data (NewDatabase L ''id'' updatedDirectory)) = 1"
    by (simp add: NewDatabase_length_data)
  moreover have "Count (NewDatabase L ''id'' updatedDirectory) = 2"
    by (simp add: c updatedDirectory_def)
  ultimately show ?thesis
    by (simp add: c NewDatabase_length_data)
qed

subsection \<open>Appends that are pending when Close is called\<close>

lemma asyncWrite_open:
  "\<not> closed (dataFile db) \<Longrightarrow> \<not> full (dataFile db) \<Longrightarrow>
   asyncWriteToDataFile db k d
     = db\<lparr>dataFile := (dataFile db)\<lparr>contents := contents (dataFile db) @ [DocEntry k d]\<rparr>\<rparr>"
  by (simp add: asyncWriteToDataFile_def writeToDataFile_def fileWrite_def)

lemma asyncWrite_frame:
  "data (asyncWriteToDataFile db k d) = data db"
  "walFile (asyncWriteToDataFile db k d) = walFile db"
  "pending (asyncWriteToDataFile db k d) = pending db"
  "closed (dataFile (asyncWriteToDataFile db k d)) = closed (dataFile db)"
  "full (dataFile (asyncWriteToDataFile db k d)) = full (dataFile db)"
  by (simp_all add: asyncWriteToDataFile_def writeToDataFile_def fileWrite_def)

lemma runPending_frame:
  "data (runPending i db) = data db"
  "walFile (runPending i db) = walFile db"
  "closed (dataFile (runPending i db)) = closed (dataFile db)"
  "full (dataFile (runPending i db)) = full (dataFile db)"
  by (simp_all add: runPending_def Let_def asyncWrite_frame)

lemma runSchedule_data: "data (runSchedule sched db) = data db"
  unfolding runSchedule_def
  by (induction sched arbitrary: db) (simp_all add: runPending_frame)

lemma runSchedule_walFile: "walFile (runSchedule sched db) = walFile db"
  unfolding runSchedule_def
  by (induction sched arbitrary: db) (simp_all add: runPending_frame)

lemma runSchedule_closed: "closed (dataFile (runSchedule sched db)) = closed (dataFile db)"
  unfolding runSchedule_def
  by (induction sched arbitrary: db) (simp_all add: runPending_frame)

lemma runSchedule_full: "full (dataFile (runSchedule sched db)) = full (dataFile db)"
  unfolding runSchedule_def
  by (induction sched arbitrary: db) (simp_all add: runPending_frame)

lemma set_without_nth:
  "i < length xs \<Longrightarrow> set xs = insert (xs ! i) (set (take i xs @ drop (Suc i) xs))"
proof -
  assume "i < length xs"
  then have "xs = take i xs @ xs ! i # drop (Suc i) xs"
    by (rule id_take_nth_drop)
  then have "set xs = set (take i xs @ xs ! i # drop (Suc i) xs)"
    by simp
  then show ?thesis
    by simp
qed

lemma docEntry_rebuild: "DocEntry (entryID e) (entryData e) = e"
  by (cases e) simp

text \<open>
  With a data file that accepts writes, a record that is in the file, or whose append is
  pending and registered in the wait group, stays so while a schedule runs, and is in
  the file when \<open>Close\<close> has closed it.
\<close>

lemma runPending_durable:
  assumes "\<not> closed (dataFile db)" and "\<not> full (dataFile db)"
  shows "set (contents (dataFile db)) \<union> snd ` set (filter fst (pending db))
         \<subseteq> set (contents (dataFile (runPending i db)))
             \<union> snd ` set (filter fst (pending (runPending i db)))"
proof (cases "i < length (pending db)")
  case False
  then show ?thesis by (simp add: runPending_def)
next
  case True
  let ?rest = "take i (pending db) @ drop (Suc i) (pending db)"
  have s: "set (pending db) = insert (pending db ! i) (set ?rest)"
    using True by (rule set_without_nth)
  have r: "runPending i db
             = db\<lparr>pending := ?rest,
                  dataFile := (dataFile db)\<lparr>contents := contents (dataFile db)
                                 @ [snd (pending db ! i)]\<rparr>\<rparr>"
    using True assms by (simp add: runPending_def Let_def asyncWrite_open docEntry_rebuild)
  have "snd ` set (filter fst (pending db))
          \<subseteq> insert (snd (pending db ! i)) (snd ` set (filter fst ?rest))"
  proof
    fix x assume "x \<in> snd ` set (filter fst (pending db))"
    then obtain p where p: "p \<in> set (pending db)" "fst p" "x = snd p" by auto
    from p(1) s have "p = pending db ! i \<or> p \<in> set ?rest" by blast
    then show "x \<in> insert (snd (pending db ! i)) (snd ` set (filter fst ?rest))"
      using p(2,3) by auto
  qed
  then show ?thesis
    unfolding r by auto
qed

lemma runSchedule_durable:
  assumes "\<not> closed (dataFile db)" and "\<not> full (dataFile db)"
  shows "set (contents (dataFile db)) \<union> snd ` set (filter fst (pending db))
         \<subseteq> set (contents (dataFile (runSchedule sched db)))
             \<union> snd ` set (filter fst (pending (runSchedule sched db)))"
  using assms
proof (induction sched arbitrary: db)
  case Nil
  then show ?case by (simp add: runSchedule_def)
next
  case (Cons i sched)
  have o: "\<not> closed (dataFile (runPending i db))" "\<not> full (dataFile (runPending i db))"
    using Cons.prems by (simp_all add: runPending_frame)
  have e: "runSchedule (i # sched) db = runSchedule sched (runPending i db)"
    by (simp add: runSchedule_def)
  show ?case
    unfolding e
    by (rule subset_trans [OF runPending_durable [OF Cons.prems, of i] Cons.IH [OF o]])
qed

lemma foldl_asyncWrite:
  "\<not> closed (dataFile db) \<Longrightarrow> \<not> full (dataFile db) \<Longrightarrow>
   foldl (\<lambda>d p. asyncWriteToDataFile d (entryID (snd p)) (entryData (snd p))) db ps
     = db\<lparr>dataFile := (dataFile db)\<lparr>contents := contents (dataFile db) @ map snd ps\<rparr>\<rparr>"
proof (induction ps arbitrary: db)
  case Nil
  then show ?case by simp
next
  case (Cons p ps)
  let ?db = "asyncWriteToDataFile db (entryID (snd p)) (entryData (snd p))"
  have o: "\<not> closed (dataFile ?db)" "\<not> full (dataFile ?db)"
    using Cons.prems by (simp_all add: asyncWrite_frame)
  show ?case
    using Cons.IH [OF o] Cons.prems
    by (simp add: asyncWrite_open docEntry_rebuild)
qed

lemma awaitTracked_open:
  "\<not> closed (dataFile db) \<Longrightarrow> \<not> full (dataFile db) \<Longrightarrow>
   awaitTracked db
     = db\<lparr>pending := filter (\<lambda>p. \<not> fst p) (pending db),
          dataFile := (dataFile db)\<lparr>contents := contents (dataFile db)
                         @ map snd (filter fst (pending db))\<rparr>\<rparr>"
  by (simp add: awaitTracked_def foldl_asyncWrite)

lemma Close_durable:
  assumes "\<not> closed (dataFile db)" and "\<not> full (dataFile db)" and "\<not> closed (walFile db)"
  shows "fst (Close sched db) = None"
    and "set (contents (dataFile db)) \<union> snd ` set (filter fst (pending db))
           \<subseteq> set (dataDb (directoryOf (snd (Close sched db))))"
proof -
  let ?a = "runSchedule sched db"
  have o: "\<not> closed (dataFile ?a)" "\<not> full (dataFile ?a)" "\<not> closed (walFile ?a)"
    using assms by (simp_all add: runSchedule_closed runSchedule_full runSchedule_walFile)
  show "fst (Close sched db) = None"
    using o by (simp add: Close_def Let_def awaitTracked_open)
  have "dataDb (directoryOf (snd (Close sched db)))
          = contents (dataFile ?a) @ map snd (filter fst (pending ?a))"
    using o by (simp add: Close_def Let_def awaitTracked_open directoryOf_def)
  then have "set (dataDb (directoryOf (snd (Close sched db))))
          = set (contents (dataFile ?a)) \<union> snd ` set (filter fst (pending ?a))"
    by simp
  then show "set (contents (dataFile db)) \<union> snd ` set (filter fst (pending db))
           \<subseteq> set (dataDb (directoryOf (snd (Close sched db))))"
    using runSchedule_durable [OF assms(1,2), of sched] by simp
qed


text \<open>
  The two defects in runs that start from the empty directory, under every schedule of
  the appends, each append running as a whole. \<open>Close\<close> waits for the append of an
  \<open>Update\<close>, so the record of the update is in the data file when it is closed, whether
  the append of \<open>Insert\<close> has run or not.
\<close>

lemma Update_stored:
  assumes "map_of (data db) k = Some old"
    and "\<not> closed (walFile db)" and "\<not> full (walFile db)"
  shows "fst (Update L db k upd) = None"
    and "data (snd (Update L db k upd)) = AList.update k (old ++ upd) (data db)"
    and "pending (snd (Update L db k upd)) = pending db @ [(True, DocEntry k (old ++ upd))]"
    and "dataFile (snd (Update L db k upd)) = dataFile db"
    and "\<not> closed (walFile (snd (Update L db k upd)))"
    and "\<not> full (walFile (snd (Update L db k upd)))"
    and "docCount (snd (Update L db k upd)) = docCount db"
  using assms
  by (simp_all add: Update_def Let_def writeWAL_def fileWrite_def updateAll_def startAppend_def)

lemma Insert_then_Update_then_Delete:
  "let db0 = NewDatabase L ''id'' emptyDirectory;
       (e1, db1) = Insert L db0 (DocMap exampleDoc);
       (e2, db2) = Update L (runSchedule s1 db1) ''1'' [''age'' \<mapsto> VInt 31];
       (e3, db3) = Delete L (runSchedule s2 db2) ''1'';
       (e4, db4) = Close s3 db3;
       reopened = NewDatabase L ''id'' (directoryOf db4)
   in e1 = None \<and> e2 = None \<and> e3 = None \<and> e4 = None \<and>
      Get db3 ''1'' = None \<and> Get reopened ''1'' \<noteq> None"
proof -
  let ?upd = "[''age'' \<mapsto> VInt 31]"
  let ?new = "exampleDoc ++ ?upd"
  let ?db1 = "dbStateP [(''1'', exampleDoc)] [] [] [WalEntry ''INSERT'' ''1'' exampleDoc] False 1
                [(False, DocEntry ''1'' exampleDoc)]"
  let ?a = "runSchedule s1 ?db1"
  let ?db2 = "snd (Update L ?a ''1'' ?upd)"
  let ?b = "runSchedule s2 ?db2"
  let ?db3 = "snd (Delete L ?b ''1'')"
  let ?db4 = "snd (Close s3 ?db3)"
  have i: "Insert L (NewDatabase L ''id'' emptyDirectory) (DocMap exampleDoc) = (None, ?db1)"
    by (simp add: run_NewDatabase dbState_dbStateP run_Insert)
  have a: "map_of (data ?a) ''1'' = Some exampleDoc"
      "\<not> closed (walFile ?a)" "\<not> full (walFile ?a)"
      "\<not> closed (dataFile ?a)" "\<not> full (dataFile ?a)"
    by (simp_all add: runSchedule_data runSchedule_walFile runSchedule_closed runSchedule_full
          dbStateP_def)
  note u = Update_stored [where L = L and upd = ?upd, OF a(1,2,3)]
  have o2: "\<not> closed (dataFile ?db2)" "\<not> full (dataFile ?db2)"
    using a(4,5) by (simp_all add: u(4))
  have "DocEntry ''1'' ?new \<in> snd ` set (filter fst (pending ?db2))"
    by (simp add: u(3))
  then have d2: "DocEntry ''1'' ?new
                   \<in> set (contents (dataFile ?b)) \<union> snd ` set (filter fst (pending ?b))"
    using runSchedule_durable [OF o2, of s2] by blast
  have b: "Get ?b ''1'' \<noteq> None" "\<not> closed (walFile ?b)" "\<not> full (walFile ?b)"
      "\<not> closed (dataFile ?b)" "\<not> full (dataFile ?b)"
    using u(5,6) o2
    by (simp_all add: Get_def runSchedule_data runSchedule_walFile runSchedule_closed
          runSchedule_full u(2) update_conv')
  note del = Delete_stored [where L = L, OF b(1,2,3)]
  have o3: "\<not> closed (dataFile ?db3)" "\<not> full (dataFile ?db3)"
    using b(4,5) by (simp_all add: del(3))
  have d3: "DocEntry ''1'' ?new
              \<in> set (contents (dataFile ?db3)) \<union> snd ` set (filter fst (pending ?db3))"
    using d2 by (simp add: del(3,4))
  note cl = Close_durable [where sched = s3, OF o3 del(5)]
  have "DocEntry ''1'' ?new \<in> set (dataDb (directoryOf ?db4))"
    using d3 cl(2) by blast
  then have "''1'' \<in> entryID ` set (dataDb (directoryOf ?db4))"
    by force
  then have r: "Get (NewDatabase L ''id'' (directoryOf ?db4)) ''1'' \<noteq> None"
    by (rule NewDatabase_Get)
  show ?thesis
    using u(1) del(1,2) cl(1) r
    by (simp add: i Let_def case_prod_unfold)
qed


text \<open>
  The number of records written or pending and registered does not go down while a
  schedule runs, and no record appears that was neither written nor pending.
\<close>

lemma runPending_docCount: "docCount (runPending i db) = docCount db"
  by (simp add: runPending_def Let_def asyncWriteToDataFile_def writeToDataFile_def
        fileWrite_def)

lemma runSchedule_docCount: "docCount (runSchedule sched db) = docCount db"
  unfolding runSchedule_def
  by (induction sched arbitrary: db) (simp_all add: runPending_docCount)

lemma length_filter_without_nth:
  "i < length xs \<Longrightarrow>
   length (filter P xs) \<le> Suc (length (filter P (take i xs @ drop (Suc i) xs)))"
proof -
  assume "i < length xs"
  then have "xs = take i xs @ xs ! i # drop (Suc i) xs"
    by (rule id_take_nth_drop)
  then have "filter P xs = filter P (take i xs @ xs ! i # drop (Suc i) xs)"
    by simp
  then show ?thesis
    by simp
qed

lemma runPending_count:
  assumes "\<not> closed (dataFile db)" and "\<not> full (dataFile db)"
  shows "length (contents (dataFile db)) + length (filter fst (pending db))
         \<le> length (contents (dataFile (runPending i db)))
             + length (filter fst (pending (runPending i db)))"
proof (cases "i < length (pending db)")
  case False
  then show ?thesis by (simp add: runPending_def)
next
  case True
  let ?rest = "take i (pending db) @ drop (Suc i) (pending db)"
  have r: "runPending i db
             = db\<lparr>pending := ?rest,
                  dataFile := (dataFile db)\<lparr>contents := contents (dataFile db)
                                 @ [snd (pending db ! i)]\<rparr>\<rparr>"
    using True assms by (simp add: runPending_def Let_def asyncWrite_open docEntry_rebuild)
  show ?thesis
    unfolding r using length_filter_without_nth [OF True, of fst] by simp
qed

lemma runSchedule_count:
  assumes "\<not> closed (dataFile db)" and "\<not> full (dataFile db)"
  shows "length (contents (dataFile db)) + length (filter fst (pending db))
         \<le> length (contents (dataFile (runSchedule sched db)))
             + length (filter fst (pending (runSchedule sched db)))"
  using assms
proof (induction sched arbitrary: db)
  case Nil
  then show ?case by (simp add: runSchedule_def)
next
  case (Cons i sched)
  have o: "\<not> closed (dataFile (runPending i db))" "\<not> full (dataFile (runPending i db))"
    using Cons.prems by (simp_all add: runPending_frame)
  have e: "runSchedule (i # sched) db = runSchedule sched (runPending i db)"
    by (simp add: runSchedule_def)
  show ?case
    unfolding e
    by (rule order_trans [OF runPending_count [OF Cons.prems, of i] Cons.IH [OF o]])
qed

lemma runPending_all:
  "set (contents (dataFile (runPending i db))) \<union> snd ` set (pending (runPending i db))
     \<subseteq> set (contents (dataFile db)) \<union> snd ` set (pending db)"
proof (cases "i < length (pending db)")
  case False
  then show ?thesis by (simp add: runPending_def)
next
  case True
  let ?rest = "take i (pending db) @ drop (Suc i) (pending db)"
  have s: "set (pending db) = insert (pending db ! i) (set ?rest)"
    using True by (rule set_without_nth)
  have c: "set (contents (dataFile (runPending i db)))
             \<subseteq> insert (snd (pending db ! i)) (set (contents (dataFile db)))"
    using True
    by (auto simp add: runPending_def Let_def asyncWriteToDataFile_def writeToDataFile_def
          fileWrite_def docEntry_rebuild)
  have p: "pending (runPending i db) = ?rest"
    using True by (simp add: runPending_def Let_def asyncWrite_frame)
  show ?thesis
    using c unfolding p s by auto
qed

lemma runSchedule_all:
  "set (contents (dataFile (runSchedule sched db))) \<union> snd ` set (pending (runSchedule sched db))
     \<subseteq> set (contents (dataFile db)) \<union> snd ` set (pending db)"
proof (induction sched arbitrary: db)
  case Nil
  then show ?case by (simp add: runSchedule_def)
next
  case (Cons i sched)
  have e: "runSchedule (i # sched) db = runSchedule sched (runPending i db)"
    by (simp add: runSchedule_def)
  show ?case
    unfolding e
    by (rule subset_trans [OF Cons.IH runPending_all])
qed

lemma Close_records:
  assumes "\<not> closed (dataFile db)" and "\<not> full (dataFile db)" and "\<not> closed (walFile db)"
  shows "length (contents (dataFile db)) + length (filter fst (pending db))
           \<le> length (dataDb (directoryOf (snd (Close sched db))))"
    and "set (dataDb (directoryOf (snd (Close sched db))))
           \<subseteq> set (contents (dataFile db)) \<union> snd ` set (pending db)"
proof -
  let ?a = "runSchedule sched db"
  have o: "\<not> closed (dataFile ?a)" "\<not> full (dataFile ?a)" "\<not> closed (walFile ?a)"
    using assms by (simp_all add: runSchedule_closed runSchedule_full runSchedule_walFile)
  have d: "dataDb (directoryOf (snd (Close sched db)))
          = contents (dataFile ?a) @ map snd (filter fst (pending ?a))"
    using o by (simp add: Close_def Let_def awaitTracked_open directoryOf_def)
  show "length (contents (dataFile db)) + length (filter fst (pending db))
           \<le> length (dataDb (directoryOf (snd (Close sched db))))"
    using runSchedule_count [OF assms(1,2), of sched] by (simp add: d)
  have "set (dataDb (directoryOf (snd (Close sched db))))
          \<subseteq> set (contents (dataFile ?a)) \<union> snd ` set (pending ?a)"
    by (auto simp add: d)
  then show "set (dataDb (directoryOf (snd (Close sched db))))
           \<subseteq> set (contents (dataFile db)) \<union> snd ` set (pending db)"
    using runSchedule_all [of sched db] by (rule subset_trans)
qed

lemma Insert_then_Update_twice:
  "let db0 = NewDatabase L ''id'' emptyDirectory;
       (e1, db1) = Insert L db0 (DocMap exampleDoc);
       (e2, db2) = Update L (runSchedule s1 db1) ''1'' [''age'' \<mapsto> VInt 31];
       (e3, db3) = Update L (runSchedule s2 db2) ''1'' [''age'' \<mapsto> VInt 32];
       (e4, db4) = Close s3 db3;
       reopened = NewDatabase L ''id'' (directoryOf db4)
   in e1 = None \<and> e2 = None \<and> e3 = None \<and> e4 = None \<and>
      Count db3 = 1 \<and> length (data db3) = 1 \<and>
      2 \<le> Count reopened \<and> length (data reopened) = 1"
proof -
  let ?u1 = "[''age'' \<mapsto> VInt 31]"
  let ?u2 = "[''age'' \<mapsto> VInt 32]"
  let ?d1 = "exampleDoc ++ ?u1"
  let ?d2 = "?d1 ++ ?u2"
  let ?db1 = "dbStateP [(''1'', exampleDoc)] [] [] [WalEntry ''INSERT'' ''1'' exampleDoc] False 1
                [(False, DocEntry ''1'' exampleDoc)]"
  let ?a = "runSchedule s1 ?db1"
  let ?db2 = "snd (Update L ?a ''1'' ?u1)"
  let ?b = "runSchedule s2 ?db2"
  let ?db3 = "snd (Update L ?b ''1'' ?u2)"
  let ?db4 = "snd (Close s3 ?db3)"
  let ?all = "\<lambda>db. set (contents (dataFile db)) \<union> snd ` set (pending db)"
  let ?n = "\<lambda>db. length (contents (dataFile db)) + length (filter fst (pending db))"
  have i: "Insert L (NewDatabase L ''id'' emptyDirectory) (DocMap exampleDoc) = (None, ?db1)"
    by (simp add: run_NewDatabase dbState_dbStateP run_Insert)
  have a: "map_of (data ?a) ''1'' = Some exampleDoc"
      "\<not> closed (walFile ?a)" "\<not> full (walFile ?a)"
      "\<not> closed (dataFile ?a)" "\<not> full (dataFile ?a)"
      "data ?a = [(''1'', exampleDoc)]" "docCount ?a = 1"
    by (simp_all add: runSchedule_data runSchedule_walFile runSchedule_closed runSchedule_full
          runSchedule_docCount dbStateP_def)
  have ea: "?all ?a \<subseteq> {DocEntry ''1'' exampleDoc}"
    using runSchedule_all [of s1 ?db1] by (simp add: dbStateP_def)
  note u = Update_stored [where L = L and upd = ?u1, OF a(1,2,3)]
  have o2: "\<not> closed (dataFile ?db2)" "\<not> full (dataFile ?db2)"
    using a(4,5) by (simp_all add: u(4))
  have n2: "1 \<le> ?n ?db2"
    by (simp add: u(3))
  have e2: "?all ?db2 \<subseteq> {DocEntry ''1'' exampleDoc, DocEntry ''1'' ?d1}"
    using ea by (auto simp add: u(3,4))
  have b: "map_of (data ?b) ''1'' = Some ?d1"
      "\<not> closed (walFile ?b)" "\<not> full (walFile ?b)"
      "\<not> closed (dataFile ?b)" "\<not> full (dataFile ?b)"
      "data ?b = [(''1'', ?d1)]" "docCount ?b = 1"
    using u(5,6) o2
    by (simp_all add: runSchedule_data [where sched = s2] runSchedule_walFile [where sched = s2]
          runSchedule_closed [where sched = s2] runSchedule_full [where sched = s2]
          runSchedule_docCount [where sched = s2] u(2,7) a(6,7))
  have nb: "1 \<le> ?n ?b"
    using n2 runSchedule_count [OF o2, of s2] by linarith
  have eb: "?all ?b \<subseteq> {DocEntry ''1'' exampleDoc, DocEntry ''1'' ?d1}"
    using runSchedule_all [of s2 ?db2] e2 by (rule subset_trans)
  note v = Update_stored [where L = L and upd = ?u2, OF b(1,2,3)]
  have o3: "\<not> closed (dataFile ?db3)" "\<not> full (dataFile ?db3)"
    using b(4,5) by (simp_all add: v(4))
  have n3: "2 \<le> ?n ?db3"
    using nb by (simp add: v(3,4))
  have e3: "?all ?db3 \<subseteq> {DocEntry ''1'' exampleDoc, DocEntry ''1'' ?d1, DocEntry ''1'' ?d2}"
    using eb by (auto simp add: v(3,4))
  note cl = Close_records [where sched = s3, OF o3 v(5)]
  have c1: "fst (Close s3 ?db3) = None"
    using o3 v(5) by (rule Close_durable(1))
  have len: "2 \<le> length (dataDb (directoryOf ?db4))"
    using n3 cl(1) by linarith
  have "set (dataDb (directoryOf ?db4))
          \<subseteq> {DocEntry ''1'' exampleDoc, DocEntry ''1'' ?d1, DocEntry ''1'' ?d2}"
    using cl(2) e3 by (rule subset_trans)
  then have ids: "entryID ` set (dataDb (directoryOf ?db4)) \<subseteq> {''1''}"
    by auto
  have "dataDb (directoryOf ?db4) \<noteq> []"
    using len by auto
  then have "entryID ` set (dataDb (directoryOf ?db4)) \<noteq> {}"
    by simp
  then have "entryID ` set (dataDb (directoryOf ?db4)) = {''1''}"
    using ids by (simp only: subset_singleton_iff) simp
  then have r1: "length (data (NewDatabase L ''id'' (directoryOf ?db4))) = 1"
    by (simp add: NewDatabase_length_data)
  have r2: "2 \<le> Count (NewDatabase L ''id'' (directoryOf ?db4))"
    using len by (simp add: Count_def NewDatabase_docCount)
  have q: "Count ?db3 = 1" "length (data ?db3) = 1"
    by (simp_all add: Count_def v(2,7) b(6,7))
  show ?thesis
    using u(1) v(1) c1 q r1 r2
    by (simp add: i Let_def case_prod_unfold)
qed

section \<open>Insert and its errors\<close>

text \<open>
  C5: \<open>Insert\<close> returns an error and leaves the store, every index and the counter as
  they were when the input is neither a map nor a string, when the document lacks the
  primary-key field, when a document with the same id string is stored, and when the
  append to the log fails.

  In the first three cases the result is the error together with the database that was
  passed in. When \<open>writeWAL\<close> fails, \<open>Insert\<close> returns that error and the store, the
  registry of indexes and the counter are those passed in. And whenever \<open>Insert\<close>
  returns an error at all, these three are unchanged.
\<close>

theorem Insert_error_leaves_state:
  "Insert L db DocOther = (Some UnsupportedInputType, db) \<and>
   (parseInput L x = Inr doc \<and> doc (primaryKey db) = None \<longrightarrow>
      Insert L db x = (Some (PrimaryKeyNotFound (primaryKey db)), db)) \<and>
   (parseInput L x = Inr doc \<and> doc (primaryKey db) = Some idv
      \<and> Get db (sprintv L idv) \<noteq> None \<longrightarrow>
      Insert L db x = (Some (AlreadyExists (sprintv L idv)), db)) \<and>
   (parseInput L x = Inr doc \<and> doc (primaryKey db) = Some idv
      \<and> Get db (sprintv L idv) = None
      \<and> writeWAL db OperationInsert (sprintv L idv) doc = Inl e \<longrightarrow>
      fst (Insert L db x) = Some e \<and>
      data (snd (Insert L db x)) = data db \<and>
      indexes (snd (Insert L db x)) = indexes db \<and>
      docCount (snd (Insert L db x)) = docCount db) \<and>
   (fst (Insert L db x) \<noteq> None \<longrightarrow>
      data (snd (Insert L db x)) = data db \<and>
      indexes (snd (Insert L db x)) = indexes db \<and>
      docCount (snd (Insert L db x)) = docCount db)"
  by (auto simp: Insert_def parseInput_def Let_def
        split: sum.splits option.splits docData.splits)

text \<open>
  An instance of each case: a document without \<open>id\<close>; the document of the examples
  inserted a second time; and an insertion after the files have been closed, which makes
  the append to the log fail.
\<close>

theorem Insert_error_leaves_state_witness:
  "Insert exampleLibs (dbState [] [] [] [] False 0) (DocMap [''age'' \<mapsto> VInt 30])
     = (Some (PrimaryKeyNotFound ''id''), dbState [] [] [] [] False 0) \<and>
   Insert exampleLibs (snd (Insert exampleLibs (dbState [] [] [] [] False 0) (DocMap exampleDoc)))
       (DocMap exampleDoc)
     = (Some (AlreadyExists ''1''),
        snd (Insert exampleLibs (dbState [] [] [] [] False 0) (DocMap exampleDoc))) \<and>
   writeWAL (dbState [] [] [] [] True 0) OperationInsert ''1'' exampleDoc = Inl WALWriteError \<and>
   fst (Insert exampleLibs (dbState [] [] [] [] True 0) (DocMap exampleDoc))
     = Some WALWriteError \<and>
   data (snd (Insert exampleLibs (dbState [] [] [] [] True 0) (DocMap exampleDoc))) = [] \<and>
   indexes (snd (Insert exampleLibs (dbState [] [] [] [] True 0) (DocMap exampleDoc))) = [] \<and>
   docCount (snd (Insert exampleLibs (dbState [] [] [] [] True 0) (DocMap exampleDoc))) = 0"
proof -
  let ?L = exampleLibs
  let ?db0 = "dbState [] [] [] [] False 0"
  let ?db1 = "snd (Insert ?L ?db0 (DocMap exampleDoc))"
  let ?dbc = "dbState [] [] [] [] True 0"
  have pk: "primaryKey ?db0 = ''id''" "primaryKey ?db1 = ''id''" "primaryKey ?dbc = ''id''"
    by (simp_all add: run_Insert run_primaryKey dbState_dbStateP)
  have a: "parseInput ?L (DocMap [''age'' \<mapsto> VInt 30]) = Inr [''age'' \<mapsto> VInt 30]
           \<and> [''age'' \<mapsto> VInt 30] (primaryKey ?db0) = None"
    by (simp add: parseInput_def pk)
  have b: "parseInput ?L (DocMap exampleDoc) = Inr exampleDoc
           \<and> exampleDoc (primaryKey ?db1) = Some (VStr ''1'')
           \<and> Get ?db1 (sprintv ?L (VStr ''1'')) \<noteq> None"
    by (simp add: parseInput_def run_Insert run_Get run_primaryKey exampleDoc_fields
          dbState_dbStateP)
  have w: "writeWAL ?dbc OperationInsert ''1'' exampleDoc = Inl WALWriteError"
    by (simp add: writeWAL_def fileWrite_def dbState_def)
  have c: "parseInput ?L (DocMap exampleDoc) = Inr exampleDoc
           \<and> exampleDoc (primaryKey ?dbc) = Some (VStr ''1'')
           \<and> Get ?dbc (sprintv ?L (VStr ''1'')) = None
           \<and> writeWAL ?dbc OperationInsert (sprintv ?L (VStr ''1'')) exampleDoc
                = Inl WALWriteError"
    by (simp add: parseInput_def run_Get run_primaryKey exampleDoc_fields
          w [unfolded dbState_dbStateP] dbState_dbStateP)
  have d: "data ?dbc = []" "indexes ?dbc = []" "docCount ?dbc = 0"
    by (simp_all add: dbState_def)
  show ?thesis
    using a b c w d
      Insert_error_leaves_state [where L = ?L and db = ?db0
        and x = "DocMap [''age'' \<mapsto> VInt 30]" and doc = "[''age'' \<mapsto> VInt 30]"]
      Insert_error_leaves_state [where L = ?L and db = ?db1
        and x = "DocMap exampleDoc" and doc = exampleDoc and idv = "VStr ''1''"]
      Insert_error_leaves_state [where L = ?L and db = ?dbc
        and x = "DocMap exampleDoc" and doc = exampleDoc and idv = "VStr ''1''"
        and e = WALWriteError]
    by (simp add: pk)
qed

section \<open>Comparison and range queries\<close>

text \<open>
  C3: the three-way compare orders an integer against a float by promoting the integer
  to float, so that \<open>compare(1, 1.5)\<close> is less, and orders every other mixed pair, such
  as an integer against a string, by their default textual forms without failing.

  The code does not do this. With the integer on the left the float is converted to
  \<open>int64\<close>, so \<open>compareValues(1, 1.5)\<close> is 0, while \<open>compareValues(1.5, 1)\<close>, which
  promotes the integer, is 1. An integer against a string, in either order, is a failed
  type assertion and panics.
\<close>

theorem compareValues_int_against_float_and_string:
  "compareValues L (VInt 1) (VFloat64 (F (3 / 2))) = Inr 0 \<and>
   compareValues L (VFloat64 (F (3 / 2))) (VInt 1) = Inr 1 \<and>
   compareValues L (VInt 1) (VStr ''a'') = Inl TypeAssertionPanic \<and>
   compareValues L (VStr ''a'') (VInt 1) = Inl TypeAssertionPanic"
  by (simp add: compareValues_def int64_of_float64_1 float64_of_int_1 threeWayInt_def
        threeWayFloat_def)

text \<open>
  C4: \<open>RangeQuery\<close> returns the same documents through a single-field index as by full
  scan, treats the bounds as a closed interval and returns nothing when \<open>min > max\<close>.

  The code does not do this. The store holds \<open>{"id": "1", "age": 30}\<close>. The scan
  compares the integer 30 with the bounds converted to \<open>int64\<close>, so the query for
  \<open>[30.5, 40.5]\<close> returns the document; the index holds the key \<open>float64(30)\<close>, compares
  floats, and returns nothing. The scan also returns the document for the empty range
  \<open>[30.75, 30.25]\<close>.
\<close>

theorem RangeQuery_index_and_scan_differ:
  "let db0 = NewDatabase L ''id'' emptyDirectory;
       (e1, db1) = Insert L db0 (DocMap exampleDoc);
       indexed = CreateIndex L db1 ''age''
   in e1 = None \<and>
      RangeQuery L db1 ''age'' (VFloat64 (F (61 / 2))) (VFloat64 (F (81 / 2)))
        = Inr [exampleDoc] \<and>
      RangeQuery L indexed ''age'' (VFloat64 (F (61 / 2))) (VFloat64 (F (81 / 2)))
        = Inr [] \<and>
      RangeQuery L db1 ''age'' (VFloat64 (F (123 / 4))) (VFloat64 (F (121 / 4)))
        = Inr [exampleDoc]"
  by (simp add: run_NewDatabase dbState_dbStateP run_Insert run_CreateIndex
        run_RangeQuery_scan
        run_RangeQuery_index run_RangeQuery_scan_empty_range)

section \<open>Index maintenance\<close>

text \<open>
  C2: after every sequence of operations the id of a stored document is in the bucket
  of its current value of an indexed field and in no other bucket of that index.

  The code does not do this. \<open>indexDocument\<close> files the integer 30 under the key
  \<open>float64(30)\<close>; \<open>updateIndex\<close> looks for the old bucket under the unconverted \<open>int\<close> 30,
  finds none, and files the id under the unconverted \<open>int\<close> 31. After the update of
  \<open>age\<close> from 30 to 31 the id is in two buckets, one of them that of the old value.
\<close>

theorem update_leaves_id_in_old_bucket:
  "let db0 = NewDatabase L ''id'' emptyDirectory;
       (e1, db1) = Insert L db0 (DocMap exampleDoc);
       db2 = CreateIndex L db1 ''age'';
       (e3, db3) = Update L db2 ''1'' [''age'' \<mapsto> VInt 31]
   in e1 = None \<and> e3 = None \<and>
      Get db3 ''1'' = Some (exampleDoc(''age'' \<mapsto> VInt 31)) \<and>
      bucketsOf db2 ''age'' = [(VFloat64 (F 30), [''1''])] \<and>
      bucketsOf db3 ''age'' = [(VFloat64 (F 30), [''1'']), (VInt 31, [''1''])]"
  by (simp add: run_NewDatabase dbState_dbStateP run_Insert run_CreateIndex
        run_Update_indexed run_Get
        run_bucketsOf)

text \<open>
  C6: the composite key of a document is the \<open>-\<close>-joined textual forms of the indexed
  fields, a missing field contributing the empty string, and the same key is computed on
  indexing, on both sides of an update and on removal.

  The code does not do this. \<open>indexDocumentComposite\<close> and \<open>removeFromCompositeIndex\<close>
  test for the field and use the empty string; \<open>updateCompositeIndex\<close> formats
  \<open>doc.data[field]\<close>, which is \<open>nil\<close> for a missing field and prints as \<open><nil>\<close>. For
  the index on \<open>age\<close> and \<open>name\<close> and the document without \<open>name\<close> the two keys are \<open>30-\<close>
  and \<open>30-<nil>\<close>, and the update of \<open>age\<close> to 31 leaves the id in the bucket \<open>30-\<close> and adds
  it to \<open>31-<nil>\<close>.
\<close>

theorem composite_key_differs_on_update:
  "compositeKeyOf L [''age'', ''name''] exampleDoc = ''30-'' \<and>
   updateKeyOf L [''age'', ''name''] exampleDoc = ''30-<nil>'' \<and>
   (let db0 = NewDatabase L ''id'' emptyDirectory;
        (e1, db1) = Insert L db0 (DocMap exampleDoc);
        db2 = CreateCompositeIndex L db1 [''age'', ''name''];
        (e3, db3) = Update L db2 ''1'' [''age'' \<mapsto> VInt 31]
    in e1 = None \<and> e3 = None \<and>
       compositeBucketsOf db2 ''age-name'' = [(VStr ''30-'', [''1''])] \<and>
       compositeBucketsOf db3 ''age-name''
         = [(VStr ''30-'', [''1'']), (VStr ''31-<nil>'', [''1''])])"
  by (simp add: compositeKeyOf_def updateKeyOf_def fieldOrNil_def exampleDoc_fields fmtInt_30
        run_NewDatabase dbState_dbStateP run_Insert run_CreateCompositeIndex
        run_Update_composite
        run_compositeBucketsOf)

section \<open>The registry shared by the two kinds of index\<close>











end
